theory Spec2Isabelle
  imports Main "HOL-Library.Sublist" "HOL-Library.Char_ord" "HOL-Library.List_Lexorder"
begin

section \<open>Strings\<close>

text \<open>
  A Go string is a sequence of bytes, and so is a HOL \<^typ>\<open>string\<close>. Go compares strings
  byte by byte; \<open>Char_ord\<close> and \<open>List_Lexorder\<close> give \<^typ>\<open>string\<close> that order.
  \<open>strings.HasPrefix\<close> and \<open>strings.TrimPrefix\<close> of the Go library:
\<close>

definition HasPrefix :: "string \<Rightarrow> string \<Rightarrow> bool" where
  "HasPrefix s p = prefix p s"

definition TrimPrefix :: "string \<Rightarrow> string \<Rightarrow> string" where
  "TrimPrefix s p = (if HasPrefix s p then drop (length p) s else s)"

text \<open>
  The verb \<open>%d\<close> of \<open>fmt.Sprintf\<close>: the decimal digits of an integer, with a minus sign
  when it is negative.
\<close>

definition digit_char :: "nat \<Rightarrow> char" where
  "digit_char n = char_of (48 + n)"

fun digits :: "nat \<Rightarrow> string" where
  "digits n = (if n < 10 then [digit_char n] else digits (n div 10) @ [digit_char (n mod 10)])"

declare digits.simps [simp del]

definition itoa :: "int \<Rightarrow> string" where
  "itoa i = (if i < 0 then CHR ''-'' # digits (nat (- i)) else digits (nat i))"

section \<open>Schema descriptor: columns and foreign keys\<close>

text \<open>The structs \<open>Column\<close> and \<open>ForeignKey\<close> of olympian.go; a nil \<open>*string\<close> is \<open>None\<close>.\<close>

record Column =
  name :: string
  dataType :: string
  nullable :: bool
  primary :: bool
  unique :: bool
  defaultValue :: "string option"
  afterColumn :: "string option"
  autoIncrement :: bool

record ForeignKey =
  column :: string
  refTable :: string
  refColumn :: string
  onDelete :: string
  onUpdate :: string

text \<open>
  A Go composite literal leaves the fields it does not name at their zero values:
  the empty string, false, nil.
\<close>

definition zeroColumn :: Column where
  "zeroColumn = \<lparr>name = [], dataType = [], nullable = False, primary = False, unique = False,
     defaultValue = None, afterColumn = None, autoIncrement = False\<rparr>"

definition zeroForeignKey :: ForeignKey where
  "zeroForeignKey = \<lparr>column = [], refTable = [], refColumn = [], onDelete = [], onUpdate = []\<rparr>"

text \<open>The type string \<open>Decimal\<close> stores: \<open>fmt.Sprintf("decimal(%d,%d)", precision, scale)\<close>.\<close>

definition decimalType :: "int \<Rightarrow> int \<Rightarrow> string" where
  "decimalType precision scale = ''decimal('' @ itoa precision @ '','' @ itoa scale @ '')''"

section \<open>Dialect compiler: type mapping\<close>

text \<open>The three implementations of the interface \<open>Dialect\<close>.\<close>

datatype Dialect = PostgresDialect | MySQLDialect | SQLiteDialect

text \<open>\<open>func (d *PostgresDialect) GetDataType(col *Column) string\<close>\<close>

definition PostgresDialect_GetDataType :: "Column \<Rightarrow> string" where
  "PostgresDialect_GetDataType col =
    (if dataType col = ''uuid'' then ''UUID''
     else if dataType col = ''string'' then ''VARCHAR(255)''
     else if dataType col = ''text'' then ''TEXT''
     else if dataType col = ''integer'' then
       (if autoIncrement col then ''SERIAL'' else ''INTEGER'')
     else if dataType col = ''bigint'' then
       (if autoIncrement col then ''BIGSERIAL'' else ''BIGINT'')
     else if dataType col = ''boolean'' then ''BOOLEAN''
     else if dataType col = ''timestamp'' then ''TIMESTAMP''
     else if dataType col = ''date'' then ''DATE''
     else if dataType col = ''json'' then ''JSONB''
     else if HasPrefix (dataType col) ''decimal''
       then ''DECIMAL'' @ TrimPrefix (dataType col) ''decimal''
     else dataType col)"

text \<open>\<open>func (d *MySQLDialect) GetDataType(col *Column) string\<close>\<close>

definition MySQLDialect_GetDataType :: "Column \<Rightarrow> string" where
  "MySQLDialect_GetDataType col =
    (if dataType col = ''uuid'' then ''CHAR(36)''
     else if dataType col = ''string'' then ''VARCHAR(255)''
     else if dataType col = ''text'' then ''TEXT''
     else if dataType col = ''integer'' then ''INT''
     else if dataType col = ''bigint'' then ''BIGINT''
     else if dataType col = ''boolean'' then ''TINYINT(1)''
     else if dataType col = ''timestamp'' then ''TIMESTAMP''
     else if dataType col = ''date'' then ''DATE''
     else if dataType col = ''json'' then ''JSON''
     else if HasPrefix (dataType col) ''decimal''
       then ''DECIMAL'' @ TrimPrefix (dataType col) ''decimal''
     else dataType col)"

text \<open>\<open>func (d *SQLiteDialect) GetDataType(col *Column) string\<close>\<close>

definition SQLiteDialect_GetDataType :: "Column \<Rightarrow> string" where
  "SQLiteDialect_GetDataType col =
    (if dataType col = ''uuid'' \<or> dataType col = ''string'' then ''TEXT''
     else if dataType col = ''text'' then ''TEXT''
     else if dataType col = ''integer'' then ''INTEGER''
     else if dataType col = ''bigint'' then ''INTEGER''
     else if dataType col = ''boolean'' then ''INTEGER''
     else if dataType col = ''timestamp'' \<or> dataType col = ''date'' then ''TEXT''
     else if dataType col = ''json'' then ''TEXT''
     else if HasPrefix (dataType col) ''decimal'' then ''REAL''
     else ''TEXT'')"

text \<open>A call of the interface method dispatches on the dialect.\<close>

fun GetDataType :: "Dialect \<Rightarrow> Column \<Rightarrow> string" where
  "GetDataType PostgresDialect col = PostgresDialect_GetDataType col"
| "GetDataType MySQLDialect col = MySQLDialect_GetDataType col"
| "GetDataType SQLiteDialect col = SQLiteDialect_GetDataType col"


section \<open>Dialect compiler: statements\<close>

text \<open>
  The builder holds pointers: \<open>columns []*Column\<close> and \<open>foreignKeys []*ForeignKey\<close>. A
  pointer is an index into a store of the objects allocated so far (see the section on the
  builder below); the dialect reads the columns and foreign keys of a table through them.
  The fields \<open>db\<close> and \<open>dialect\<close> of the struct are the connection pair copied from the
  globals; no function modelled here reads them.
\<close>

record TableBuilder =
  tableName :: string
  columns :: "nat list"
  operation :: string
  foreignKeys :: "nat list"

record store =
  colStore :: "Column list"
  fkStore :: "ForeignKey list"
  tbStore :: "TableBuilder list"
  currentBuilder :: "nat option"

definition tbColumns :: "store \<Rightarrow> TableBuilder \<Rightarrow> Column list" where
  "tbColumns st tb = map (\<lambda>p. colStore st ! p) (columns tb)"

definition tbForeignKeys :: "store \<Rightarrow> TableBuilder \<Rightarrow> ForeignKey list" where
  "tbForeignKeys st tb = map (\<lambda>p. fkStore st ! p) (foreignKeys tb)"

abbreviation (input) squote :: string where
  "squote \<equiv> [CHR 0x27]"

abbreviation (input) backquote :: string where
  "backquote \<equiv> [CHR 0x60]"

abbreviation (input) newline :: string where
  "newline \<equiv> [CHR 0x0A]"

text \<open>\<open>strings.Join\<close>.\<close>

fun Join :: "string list \<Rightarrow> string \<Rightarrow> string" where
  "Join [] sep = []"
| "Join [x] sep = x"
| "Join (x # y # ys) sep = x @ sep @ Join (y # ys) sep"

text \<open>
  \<open>strings.ToUpper\<close> and \<open>strings.ToLower\<close>, on ASCII letters. (The Go functions also map
  letters outside ASCII, which are several bytes each; those bytes are left as they are
  here. No statement below depends on the case mapping.)
\<close>

definition upperByte :: "char \<Rightarrow> char" where
  "upperByte c = (if CHR ''a'' \<le> c \<and> c \<le> CHR ''z'' then char_of (of_char c - (32::nat)) else c)"

definition lowerByte :: "char \<Rightarrow> char" where
  "lowerByte c = (if CHR ''A'' \<le> c \<and> c \<le> CHR ''Z'' then char_of (of_char c + (32::nat)) else c)"

definition ToUpper :: "string \<Rightarrow> string" where
  "ToUpper s = map upperByte s"

definition ToLower :: "string \<Rightarrow> string" where
  "ToLower s = map lowerByte s"

definition mysqlReservedKeywords :: "string list" where
  "mysqlReservedKeywords =
    [''limit'', ''order'', ''group'', ''key'', ''index'',
     ''type'', ''desc'', ''asc'', ''primary'', ''foreign'',
     ''references'', ''constraint'', ''table'', ''column'',
     ''select'', ''from'', ''where'', ''join'', ''on'',
     ''and'', ''or'', ''not'', ''like'', ''in'',
     ''between'', ''is'', ''null'', ''default'', ''unique'',
     ''check'', ''cascade'', ''restrict'', ''set'']"

definition escapeColumnName :: "string \<Rightarrow> Dialect \<Rightarrow> string" where
  "escapeColumnName n d =
    (if d = MySQLDialect \<and> ToLower n \<in> set mysqlReservedKeywords
     then backquote @ n @ backquote else n)"

subsection \<open>Postgres\<close>

text \<open>The body of the loop over \<open>tb.columns\<close> in \<open>PostgresDialect.BuildCreateTable\<close>.\<close>

definition PostgresDialect_columnDef :: "Column \<Rightarrow> string" where
  "PostgresDialect_columnDef col =
    (let def = ''  '' @ name col @ '' '' @ GetDataType PostgresDialect col;
         def = (if primary col then def @ '' PRIMARY KEY'' else def);
         def = (if \<not> nullable col then def @ '' NOT NULL'' else def);
         def = (if unique col \<and> \<not> primary col then def @ '' UNIQUE'' else def);
         def = (case defaultValue col of
                  None \<Rightarrow> def
                | Some v \<Rightarrow>
                    if dataType col = ''boolean'' \<or> dataType col = ''integer''
                       \<or> dataType col = ''bigint''
                    then def @ '' DEFAULT '' @ v
                    else def @ '' DEFAULT '' @ squote @ v @ squote)
     in def)"

text \<open>The body of the loop over \<open>tb.foreignKeys\<close>, the same in Postgres and MySQL.\<close>

definition namedForeignKeyDef :: "string \<Rightarrow> ForeignKey \<Rightarrow> string" where
  "namedForeignKeyDef tn fk =
    (let fkDef = ''  CONSTRAINT fk_'' @ tn @ ''_'' @ column fk @ '' FOREIGN KEY ('' @ column fk
                 @ '') REFERENCES '' @ refTable fk @ ''('' @ refColumn fk @ '')'';
         fkDef = (if onDelete fk \<noteq> [] then fkDef @ '' ON DELETE '' @ ToUpper (onDelete fk)
                  else fkDef);
         fkDef = (if onUpdate fk \<noteq> [] then fkDef @ '' ON UPDATE '' @ ToUpper (onUpdate fk)
                  else fkDef)
     in fkDef)"

definition PostgresDialect_BuildCreateTable :: "store \<Rightarrow> TableBuilder \<Rightarrow> string" where
  "PostgresDialect_BuildCreateTable st tb =
    (let columnDefs = map PostgresDialect_columnDef (tbColumns st tb)
                      @ map (namedForeignKeyDef (tableName tb)) (tbForeignKeys st tb);
         parts = [''CREATE TABLE IF NOT EXISTS '' @ tableName tb @ '' ('',
                  Join columnDefs ('','' @ newline),
                  '');'']
     in Join parts newline)"

text \<open>The body of the loop in \<open>PostgresDialect.BuildModifyTable\<close>.\<close>

definition PostgresDialect_addColumn :: "string \<Rightarrow> Column \<Rightarrow> string" where
  "PostgresDialect_addColumn tn col =
    (let query = ''ALTER TABLE '' @ tn @ '' ADD COLUMN '' @ name col @ '' ''
                 @ GetDataType PostgresDialect col;
         query = (if \<not> nullable col then query @ '' NOT NULL'' else query);
         query = (case defaultValue col of
                    None \<Rightarrow> query
                  | Some v \<Rightarrow>
                      if dataType col = ''boolean'' \<or> dataType col = ''integer''
                         \<or> dataType col = ''bigint''
                      then query @ '' DEFAULT '' @ v
                      else query @ '' DEFAULT '' @ squote @ v @ squote)
     in query)"

definition PostgresDialect_BuildModifyTable :: "store \<Rightarrow> TableBuilder \<Rightarrow> string list" where
  "PostgresDialect_BuildModifyTable st tb =
     map (PostgresDialect_addColumn (tableName tb)) (tbColumns st tb)"

subsection \<open>MySQL\<close>

definition MySQLDialect_columnDef :: "Column \<Rightarrow> string" where
  "MySQLDialect_columnDef col =
    (let def = ''  '' @ escapeColumnName (name col) MySQLDialect @ '' ''
               @ GetDataType MySQLDialect col;
         def = (if autoIncrement col then def @ '' AUTO_INCREMENT'' else def);
         def = (if primary col then def @ '' PRIMARY KEY'' else def);
         def = (if \<not> nullable col then def @ '' NOT NULL'' else def);
         def = (if unique col \<and> \<not> primary col then def @ '' UNIQUE'' else def);
         def = (case defaultValue col of
                  None \<Rightarrow> def
                | Some v \<Rightarrow>
                    if dataType col = ''boolean'' \<or> dataType col = ''integer''
                       \<or> dataType col = ''bigint''
                    then def @ '' DEFAULT '' @ v
                    else def @ '' DEFAULT '' @ squote @ v @ squote)
     in def)"

definition MySQLDialect_BuildCreateTable :: "store \<Rightarrow> TableBuilder \<Rightarrow> string" where
  "MySQLDialect_BuildCreateTable st tb =
    (let columnDefs = map MySQLDialect_columnDef (tbColumns st tb)
                      @ map (namedForeignKeyDef (tableName tb)) (tbForeignKeys st tb);
         parts = [''CREATE TABLE IF NOT EXISTS '' @ tableName tb @ '' ('',
                  Join columnDefs ('','' @ newline),
                  '') ENGINE=InnoDB DEFAULT CHARSET=utf8mb4;'']
     in Join parts newline)"

definition MySQLDialect_addColumn :: "string \<Rightarrow> Column \<Rightarrow> string" where
  "MySQLDialect_addColumn tn col =
    (let query = ''ALTER TABLE '' @ tn @ '' ADD COLUMN ''
                 @ escapeColumnName (name col) MySQLDialect @ '' ''
                 @ GetDataType MySQLDialect col;
         query = (if \<not> nullable col then query @ '' NOT NULL'' else query);
         query = (case defaultValue col of
                    None \<Rightarrow> query
                  | Some v \<Rightarrow>
                      if dataType col = ''boolean'' \<or> dataType col = ''integer''
                         \<or> dataType col = ''bigint''
                      then query @ '' DEFAULT '' @ v
                      else query @ '' DEFAULT '' @ squote @ v @ squote);
         query = (case afterColumn col of
                    None \<Rightarrow> query
                  | Some a \<Rightarrow> query @ '' AFTER '' @ a)
     in query)"

definition MySQLDialect_BuildModifyTable :: "store \<Rightarrow> TableBuilder \<Rightarrow> string list" where
  "MySQLDialect_BuildModifyTable st tb =
     map (MySQLDialect_addColumn (tableName tb)) (tbColumns st tb)"

subsection \<open>SQLite\<close>

definition SQLiteDialect_columnDef :: "Column \<Rightarrow> string" where
  "SQLiteDialect_columnDef col =
    (let def = ''  '' @ name col @ '' '' @ GetDataType SQLiteDialect col;
         def = (if primary col
                then (let def = def @ '' PRIMARY KEY''
                      in if autoIncrement col then def @ '' AUTOINCREMENT'' else def)
                else def);
         def = (if \<not> nullable col then def @ '' NOT NULL'' else def);
         def = (if unique col \<and> \<not> primary col then def @ '' UNIQUE'' else def);
         def = (case defaultValue col of
                  None \<Rightarrow> def
                | Some v \<Rightarrow>
                    if dataType col = ''boolean'' \<or> dataType col = ''integer''
                       \<or> dataType col = ''bigint''
                    then def @ '' DEFAULT '' @ v
                    else def @ '' DEFAULT '' @ squote @ v @ squote)
     in def)"

definition SQLiteDialect_foreignKeyDef :: "ForeignKey \<Rightarrow> string" where
  "SQLiteDialect_foreignKeyDef fk =
    (let fkDef = ''  FOREIGN KEY ('' @ column fk @ '') REFERENCES '' @ refTable fk
                 @ ''('' @ refColumn fk @ '')'';
         fkDef = (if onDelete fk \<noteq> [] then fkDef @ '' ON DELETE '' @ ToUpper (onDelete fk)
                  else fkDef);
         fkDef = (if onUpdate fk \<noteq> [] then fkDef @ '' ON UPDATE '' @ ToUpper (onUpdate fk)
                  else fkDef)
     in fkDef)"

definition SQLiteDialect_BuildCreateTable :: "store \<Rightarrow> TableBuilder \<Rightarrow> string" where
  "SQLiteDialect_BuildCreateTable st tb =
    (let columnDefs = map SQLiteDialect_columnDef (tbColumns st tb)
                      @ map SQLiteDialect_foreignKeyDef (tbForeignKeys st tb);
         parts = [''CREATE TABLE IF NOT EXISTS '' @ tableName tb @ '' ('',
                  Join columnDefs ('','' @ newline),
                  '');'']
     in Join parts newline)"

definition SQLiteDialect_addColumn :: "string \<Rightarrow> Column \<Rightarrow> string" where
  "SQLiteDialect_addColumn tn col =
    (let query = ''ALTER TABLE '' @ tn @ '' ADD COLUMN '' @ name col @ '' ''
                 @ GetDataType SQLiteDialect col;
         query = (if \<not> nullable col then query @ '' NOT NULL'' else query);
         query = (case defaultValue col of
                    None \<Rightarrow> query
                  | Some v \<Rightarrow>
                      if dataType col = ''boolean'' \<or> dataType col = ''integer''
                         \<or> dataType col = ''bigint''
                      then query @ '' DEFAULT '' @ v
                      else query @ '' DEFAULT '' @ squote @ v @ squote)
     in query)"

definition SQLiteDialect_BuildModifyTable :: "store \<Rightarrow> TableBuilder \<Rightarrow> string list" where
  "SQLiteDialect_BuildModifyTable st tb =
     map (SQLiteDialect_addColumn (tableName tb)) (tbColumns st tb)"

subsection \<open>The interface\<close>

fun BuildCreateTable :: "Dialect \<Rightarrow> store \<Rightarrow> TableBuilder \<Rightarrow> string" where
  "BuildCreateTable PostgresDialect st tb = PostgresDialect_BuildCreateTable st tb"
| "BuildCreateTable MySQLDialect st tb = MySQLDialect_BuildCreateTable st tb"
| "BuildCreateTable SQLiteDialect st tb = SQLiteDialect_BuildCreateTable st tb"

fun BuildModifyTable :: "Dialect \<Rightarrow> store \<Rightarrow> TableBuilder \<Rightarrow> string list" where
  "BuildModifyTable PostgresDialect st tb = PostgresDialect_BuildModifyTable st tb"
| "BuildModifyTable MySQLDialect st tb = MySQLDialect_BuildModifyTable st tb"
| "BuildModifyTable SQLiteDialect st tb = SQLiteDialect_BuildModifyTable st tb"

text \<open>The text one column contributes to each statement, by dialect.\<close>

fun columnDef :: "Dialect \<Rightarrow> Column \<Rightarrow> string" where
  "columnDef PostgresDialect col = PostgresDialect_columnDef col"
| "columnDef MySQLDialect col = MySQLDialect_columnDef col"
| "columnDef SQLiteDialect col = SQLiteDialect_columnDef col"

fun addColumn :: "Dialect \<Rightarrow> string \<Rightarrow> Column \<Rightarrow> string" where
  "addColumn PostgresDialect tn col = PostgresDialect_addColumn tn col"
| "addColumn MySQLDialect tn col = MySQLDialect_addColumn tn col"
| "addColumn SQLiteDialect tn col = SQLiteDialect_addColumn tn col"

section \<open>Schema descriptor builder\<close>

text \<open>
  The package-level variable \<open>currentBuilder *TableBuilder\<close> is the field
  \<^const>\<open>currentBuilder\<close> of the store: \<open>None\<close> is the nil pointer, \<open>Some b\<close> points to the
  builder at index \<open>b\<close> of \<^const>\<open>tbStore\<close>. \<open>Create\<close> and \<open>Modify\<close> set it to their
  receiver before they call the callback, and to nil after it.

  \<open>&Column{...}\<close> and \<open>&ForeignKey{...}\<close> allocate a new object; its address is the next
  free index of the store.
\<close>

definition newColumn :: "Column \<Rightarrow> store \<Rightarrow> nat \<times> store" where
  "newColumn col st = (length (colStore st), st\<lparr>colStore := colStore st @ [col]\<rparr>)"

definition newForeignKey :: "ForeignKey \<Rightarrow> store \<Rightarrow> nat \<times> store" where
  "newForeignKey fk st = (length (fkStore st), st\<lparr>fkStore := fkStore st @ [fk]\<rparr>)"

text \<open>
  The statement every column-declaration function has after the allocation:
  \<open>if currentBuilder != nil { currentBuilder.columns = append(currentBuilder.columns, col) }\<close>,
  and its counterpart in \<open>Foreign\<close>.
\<close>

definition appendToCurrentColumns :: "nat \<Rightarrow> store \<Rightarrow> store" where
  "appendToCurrentColumns col st =
    (case currentBuilder st of
       None \<Rightarrow> st
     | Some b \<Rightarrow>
         st\<lparr>tbStore := (tbStore st)[b := (tbStore st ! b)\<lparr>columns := columns (tbStore st ! b) @ [col]\<rparr>]\<rparr>)"

definition appendToCurrentForeignKeys :: "nat \<Rightarrow> store \<Rightarrow> store" where
  "appendToCurrentForeignKeys fk st =
    (case currentBuilder st of
       None \<Rightarrow> st
     | Some b \<Rightarrow>
         st\<lparr>tbStore := (tbStore st)[b := (tbStore st ! b)\<lparr>foreignKeys := foreignKeys (tbStore st ! b) @ [fk]\<rparr>]\<rparr>)"

text \<open>The handles \<open>ColumnBuilder{column *Column}\<close> and \<open>ForeignKeyBuilder{fk *ForeignKey}\<close>.\<close>

datatype ColumnBuilder = ColumnBuilder nat

datatype ForeignKeyBuilder = ForeignKeyBuilder nat

definition Uuid :: "string \<Rightarrow> store \<Rightarrow> ColumnBuilder \<times> store" where
  "Uuid n st =
    (let (col, st) = newColumn (zeroColumn\<lparr>name := n, dataType := ''uuid'', nullable := False\<rparr>) st;
         st = appendToCurrentColumns col st
     in (ColumnBuilder col, st))"

definition String :: "string \<Rightarrow> store \<Rightarrow> ColumnBuilder \<times> store" where
  "String n st =
    (let (col, st) = newColumn (zeroColumn\<lparr>name := n, dataType := ''string'', nullable := False\<rparr>) st;
         st = appendToCurrentColumns col st
     in (ColumnBuilder col, st))"

definition Text :: "string \<Rightarrow> store \<Rightarrow> ColumnBuilder \<times> store" where
  "Text n st =
    (let (col, st) = newColumn (zeroColumn\<lparr>name := n, dataType := ''text'', nullable := False\<rparr>) st;
         st = appendToCurrentColumns col st
     in (ColumnBuilder col, st))"

definition Integer :: "string \<Rightarrow> store \<Rightarrow> ColumnBuilder \<times> store" where
  "Integer n st =
    (let (col, st) = newColumn (zeroColumn\<lparr>name := n, dataType := ''integer'', nullable := False\<rparr>) st;
         st = appendToCurrentColumns col st
     in (ColumnBuilder col, st))"

definition BigInteger :: "string \<Rightarrow> store \<Rightarrow> ColumnBuilder \<times> store" where
  "BigInteger n st =
    (let (col, st) = newColumn (zeroColumn\<lparr>name := n, dataType := ''bigint'', nullable := False\<rparr>) st;
         st = appendToCurrentColumns col st
     in (ColumnBuilder col, st))"

definition Boolean :: "string \<Rightarrow> store \<Rightarrow> ColumnBuilder \<times> store" where
  "Boolean n st =
    (let (col, st) = newColumn (zeroColumn\<lparr>name := n, dataType := ''boolean'', nullable := False\<rparr>) st;
         st = appendToCurrentColumns col st
     in (ColumnBuilder col, st))"

definition Decimal :: "string \<Rightarrow> int \<Rightarrow> int \<Rightarrow> store \<Rightarrow> ColumnBuilder \<times> store" where
  "Decimal n precision scale st =
    (let (col, st) = newColumn (zeroColumn\<lparr>name := n, dataType := decimalType precision scale,
                                 nullable := False\<rparr>) st;
         st = appendToCurrentColumns col st
     in (ColumnBuilder col, st))"

definition Timestamp :: "string \<Rightarrow> store \<Rightarrow> ColumnBuilder \<times> store" where
  "Timestamp n st =
    (let (col, st) = newColumn (zeroColumn\<lparr>name := n, dataType := ''timestamp'', nullable := False\<rparr>) st;
         st = appendToCurrentColumns col st
     in (ColumnBuilder col, st))"

definition Date :: "string \<Rightarrow> store \<Rightarrow> ColumnBuilder \<times> store" where
  "Date n st =
    (let (col, st) = newColumn (zeroColumn\<lparr>name := n, dataType := ''date'', nullable := False\<rparr>) st;
         st = appendToCurrentColumns col st
     in (ColumnBuilder col, st))"

definition Json :: "string \<Rightarrow> store \<Rightarrow> ColumnBuilder \<times> store" where
  "Json n st =
    (let (col, st) = newColumn (zeroColumn\<lparr>name := n, dataType := ''json'', nullable := False\<rparr>) st;
         st = appendToCurrentColumns col st
     in (ColumnBuilder col, st))"

definition Nullable :: "ColumnBuilder \<Rightarrow> store \<Rightarrow> ColumnBuilder \<times> store" where
  "Nullable cb st =
    (case cb of ColumnBuilder col \<Rightarrow>
       (cb, st\<lparr>colStore := (colStore st)[col := (colStore st ! col)\<lparr>nullable := True\<rparr>]\<rparr>))"

definition Timestamps :: "store \<Rightarrow> store" where
  "Timestamps st =
    (let (cb, st) = Timestamp ''created_at'' st;
         (cb, st) = Nullable cb st;
         (cb, st) = Timestamp ''updated_at'' st;
         (cb, st) = Nullable cb st
     in st)"

definition SoftDeletes :: "store \<Rightarrow> store" where
  "SoftDeletes st =
    (let (cb, st) = Timestamp ''deleted_at'' st;
         (cb, st) = Nullable cb st
     in st)"

definition Foreign :: "string \<Rightarrow> store \<Rightarrow> ForeignKeyBuilder \<times> store" where
  "Foreign columnName st =
    (let (fk, st) = newForeignKey (zeroForeignKey\<lparr>column := columnName\<rparr>) st;
         st = appendToCurrentForeignKeys fk st
     in (ForeignKeyBuilder fk, st))"

section \<open>Migration ledger and orchestrator\<close>

text \<open>
  Errors are values. \<open>Base\<close> is an error of the SQL transport or of a caller's action,
  known by its message; the other constructors are the wrappers of migrator.go, one for
  each \<open>fmt.Errorf\<close> format.
\<close>

datatype err =
    Base string
  | FailedToGetExecuted err
  | FailedToGetLastBatch err
  | MigrationFailed string err
  | FailedToRecord string err
  | FailedToGetBatch int err
  | FileNotFound string
  | RollbackFailed string err
  | FailedToRemove string err

text \<open>
  \<open>type Migration struct { Name string; Up func() error; Down func() error }\<close>. An
  action works on the caller's database objects, the state \<open>'w\<close>: it returns its error, if
  any, and the state it leaves. Actions do not write the table \<open>olympian_migrations\<close>.
\<close>

record 'w Migration =
  Name :: string
  Up :: "'w \<Rightarrow> err option \<times> 'w"
  Down :: "'w \<Rightarrow> err option \<times> 'w"

text \<open>
  A row of \<open>olympian_migrations\<close>. The column \<open>executed_at\<close> is written and never read,
  and is left out. Ids and batch numbers are integers without a bound here; a Go \<open>int\<close>
  has 64 bits, and \<open>batch++\<close> would wrap only after a batch number of \<open>2^63 - 1\<close>.
\<close>

record LedgerEntry =
  entry_id :: int
  migration :: string
  batch :: int

text \<open>
  The state a \<open>Migrator\<close> works on: the rows of the ledger table in the order of their
  insertion, the lines written to standard output, and the caller's database objects. The
  transport can fail at any statement: \<open>faults\<close> is what the coming statements will
  answer, \<open>Some e\<close> for a failure with the error \<open>e\<close>; when the list is used up every
  statement succeeds. A statement that fails changes nothing.
\<close>

record 'w system =
  ledger :: "LedgerEntry list"
  faults :: "err option list"
  console :: "string list"
  world :: 'w

definition dbCall :: "'w system \<Rightarrow> err option \<times> 'w system" where
  "dbCall s = (case faults s of [] \<Rightarrow> (None, s) | f # fs \<Rightarrow> (f, s\<lparr>faults := fs\<rparr>))"

definition Println :: "string \<Rightarrow> 'w system \<Rightarrow> 'w system" where
  "Println line s = s\<lparr>console := console s @ [line]\<rparr>"

text \<open>The SQL aggregate \<open>MAX\<close>: NULL (\<open>None\<close>) over no rows.\<close>

fun sqlMax :: "int list \<Rightarrow> int option" where
  "sqlMax [] = None"
| "sqlMax (x # xs) = (case sqlMax xs of None \<Rightarrow> Some x | Some m \<Rightarrow> Some (max x m))"

text \<open>\<open>SELECT MAX(batch) FROM olympian_migrations\<close>, with 0 for NULL.\<close>

definition lastBatchOf :: "LedgerEntry list \<Rightarrow> int" where
  "lastBatchOf rows = (case sqlMax (map batch rows) of None \<Rightarrow> 0 | Some b \<Rightarrow> b)"

definition GetLastBatch :: "'w system \<Rightarrow> (err + int) \<times> 'w system" where
  "GetLastBatch s =
    (case dbCall s of
       (Some e, s) \<Rightarrow> (Inl e, s)
     | (None, s) \<Rightarrow> (Inr (lastBatchOf (ledger s)), s))"

text \<open>
  \<open>SELECT migration FROM olympian_migrations\<close>, collected into a \<open>map[string]bool\<close>; a
  key that is not in a Go map reads as false.
\<close>

definition GetExecutedMigrations :: "'w system \<Rightarrow> (err + (string \<Rightarrow> bool)) \<times> 'w system" where
  "GetExecutedMigrations s =
    (case dbCall s of
       (Some e, s) \<Rightarrow> (Inl e, s)
     | (None, s) \<Rightarrow> (Inr (\<lambda>n. n \<in> set (map migration (ledger s))), s))"

text \<open>
  \<open>INSERT INTO olympian_migrations (migration, batch, executed_at) VALUES (?, ?, ?)\<close>. The
  key \<open>id\<close> is generated: one more than the largest id of the table (SQLite's rule for an
  \<open>INTEGER PRIMARY KEY\<close>; the sequences of Postgres and MySQL also give an id above every
  id of the table).
\<close>

definition insertRow :: "string \<Rightarrow> int \<Rightarrow> LedgerEntry list \<Rightarrow> LedgerEntry list" where
  "insertRow n b rows =
     rows @ [\<lparr>entry_id = (case sqlMax (map entry_id rows) of None \<Rightarrow> 1 | Some m \<Rightarrow> m + 1),
              migration = n, batch = b\<rparr>]"

definition RecordMigration :: "string \<Rightarrow> int \<Rightarrow> 'w system \<Rightarrow> err option \<times> 'w system" where
  "RecordMigration n b s =
    (case dbCall s of
       (Some e, s) \<Rightarrow> (Some e, s)
     | (None, s) \<Rightarrow> (None, s\<lparr>ledger := insertRow n b (ledger s)\<rparr>))"

text \<open>\<open>DELETE FROM olympian_migrations WHERE migration = ?\<close>\<close>

definition RemoveMigration :: "string \<Rightarrow> 'w system \<Rightarrow> err option \<times> 'w system" where
  "RemoveMigration n s =
    (case dbCall s of
       (Some e, s) \<Rightarrow> (Some e, s)
     | (None, s) \<Rightarrow> (None, s\<lparr>ledger := filter (\<lambda>r. migration r \<noteq> n) (ledger s)\<rparr>))"

text \<open>\<open>SELECT migration FROM olympian_migrations WHERE batch = ? ORDER BY id DESC\<close>\<close>

definition batchNames :: "LedgerEntry list \<Rightarrow> int \<Rightarrow> string list" where
  "batchNames rows b = map migration (rev (sort_key entry_id (filter (\<lambda>r. batch r = b) rows)))"

definition GetMigrationsFromBatch :: "int \<Rightarrow> 'w system \<Rightarrow> (err + string list) \<times> 'w system" where
  "GetMigrationsFromBatch b s =
    (case dbCall s of
       (Some e, s) \<Rightarrow> (Inl e, s)
     | (None, s) \<Rightarrow> (Inr (batchNames (ledger s) b), s))"

subsection \<open>Migrate\<close>

text \<open>The loop \<open>for _, migration := range pending\<close> of \<open>Migrate\<close>.\<close>

fun migrateLoop :: "'w Migration list \<Rightarrow> int \<Rightarrow> 'w system \<Rightarrow> err option \<times> 'w system" where
  "migrateLoop [] b s = (None, s)"
| "migrateLoop (m # ms) b s =
    (let s = Println (''Migrating: '' @ Name m) s in
     case Up m (world s) of
       (Some e, w) \<Rightarrow> (Some (MigrationFailed (Name m) e), s\<lparr>world := w\<rparr>)
     | (None, w) \<Rightarrow>
         (case RecordMigration (Name m) b (s\<lparr>world := w\<rparr>) of
            (Some e, s) \<Rightarrow> (Some (FailedToRecord (Name m) e), s)
          | (None, s) \<Rightarrow> migrateLoop ms b (Println (''Migrated:  '' @ Name m) s)))"

text \<open>
  \<open>sort.Slice\<close> with the comparison \<open>pending[i].Name < pending[j].Name\<close> is the insertion
  sort \<^const>\<open>sort_key\<close> here. (\<open>sort.Slice\<close> does not promise to keep units of equal name
  in their order; when the names are pairwise distinct there is one sorted arrangement and
  every sorting algorithm returns it.) \<open>SetDB\<close> stores the connection pair in the globals
  the actions read; it does not touch the state modelled here.
\<close>

definition Migrate :: "'w Migration list \<Rightarrow> 'w system \<Rightarrow> err option \<times> 'w system" where
  "Migrate migrations s =
    (case GetExecutedMigrations s of
       (Inl e, s) \<Rightarrow> (Some (FailedToGetExecuted e), s)
     | (Inr executed, s) \<Rightarrow>
         (case GetLastBatch s of
            (Inl e, s) \<Rightarrow> (Some (FailedToGetLastBatch e), s)
          | (Inr b, s) \<Rightarrow>
              (let b = b + 1;
                   pending = filter (\<lambda>m. \<not> executed (Name m)) migrations
               in if pending = [] then (None, Println ''Nothing to migrate'' s)
                  else migrateLoop (sort_key Name pending) b s)))"

subsection \<open>Rollback and Reset\<close>

text \<open>
  \<open>migrationMap[migration.Name] = migration\<close> for each unit in turn: a later unit of the
  same name replaces an earlier one.
\<close>

definition migrationMap :: "'w Migration list \<Rightarrow> (string \<rightharpoonup> 'w Migration)" where
  "migrationMap migrations = fold (\<lambda>m mp. mp(Name m \<mapsto> m)) migrations Map.empty"

text \<open>The inner loop \<open>for _, name := range toRollback\<close>.\<close>

fun rollbackNames ::
  "(string \<rightharpoonup> 'w Migration) \<Rightarrow> string list \<Rightarrow> 'w system \<Rightarrow> err option \<times> 'w system" where
  "rollbackNames mp [] s = (None, s)"
| "rollbackNames mp (n # ns) s =
    (case mp n of
       None \<Rightarrow> (Some (FileNotFound n), s)
     | Some m \<Rightarrow>
         (let s = Println (''Rolling back: '' @ n) s in
          case Down m (world s) of
            (Some e, w) \<Rightarrow> (Some (RollbackFailed n e), s\<lparr>world := w\<rparr>)
          | (None, w) \<Rightarrow>
              (case RemoveMigration n (s\<lparr>world := w\<rparr>) of
                 (Some e, s) \<Rightarrow> (Some (FailedToRemove n e), s)
               | (None, s) \<Rightarrow> rollbackNames mp ns (Println (''Rolled back: '' @ n) s))))"

text \<open>The outer loop \<open>for i := 0; i < steps; i++\<close>, from the iteration \<open>i\<close> on.\<close>

function rollbackLoop ::
  "(string \<rightharpoonup> 'w Migration) \<Rightarrow> int \<Rightarrow> int \<Rightarrow> int \<Rightarrow> 'w system \<Rightarrow> err option \<times> 'w system" where
  "rollbackLoop mp lastBatch steps i s =
    (if i < steps then
       (let b = lastBatch - i in
        if b \<le> 0 then (None, s)
        else
          (case GetMigrationsFromBatch b s of
             (Inl e, s) \<Rightarrow> (Some (FailedToGetBatch b e), s)
           | (Inr toRollback, s) \<Rightarrow>
               if toRollback = [] then rollbackLoop mp lastBatch steps (i + 1) s
               else
                 (case rollbackNames mp toRollback s of
                    (Some e, s) \<Rightarrow> (Some e, s)
                  | (None, s) \<Rightarrow> rollbackLoop mp lastBatch steps (i + 1) s)))
     else (None, s))"
  by pat_completeness auto
termination
  by (relation "measure (\<lambda>(mp, lastBatch, steps, i, s). nat (steps - i))") auto

declare rollbackLoop.simps [simp del]

definition Rollback :: "'w Migration list \<Rightarrow> int \<Rightarrow> 'w system \<Rightarrow> err option \<times> 'w system" where
  "Rollback migrations steps s =
    (let steps = (if steps \<le> 0 then 1 else steps);
         mp = migrationMap migrations
     in case GetLastBatch s of
          (Inl e, s) \<Rightarrow> (Some (FailedToGetLastBatch e), s)
        | (Inr lastBatch, s) \<Rightarrow>
            if lastBatch = 0 then (None, Println ''Nothing to rollback'' s)
            else rollbackLoop mp lastBatch steps 0 s)"

definition Reset :: "'w Migration list \<Rightarrow> 'w system \<Rightarrow> err option \<times> 'w system" where
  "Reset migrations s =
    (case GetLastBatch s of
       (Inl e, s) \<Rightarrow> (Some e, s)
     | (Inr lastBatch, s) \<Rightarrow>
         if lastBatch = 0 then (None, Println ''Nothing to reset'' s)
         else Rollback migrations lastBatch s)"

section \<open>Notions used in the statements\<close>

subsection \<open>Default literals\<close>

text \<open>The literal as the six loops append it to a column's text.\<close>

definition defaultLiteral :: "Column \<Rightarrow> string \<Rightarrow> string" where
  "defaultLiteral col v =
    (if dataType col = ''boolean'' \<or> dataType col = ''integer'' \<or> dataType col = ''bigint''
     then v else squote @ v @ squote)"

text \<open>
  What follows the default literal in an ADD COLUMN statement: only MySQL appends the
  position, when the column has one.
\<close>

definition afterClause :: "Dialect \<Rightarrow> Column \<Rightarrow> string" where
  "afterClause d col =
    (case afterColumn col of
       None \<Rightarrow> []
     | Some a \<Rightarrow> if d = MySQLDialect then '' AFTER '' @ a else [])"

subsection \<open>What a list of actions does\<close>

text \<open>
  To state which actions a call runs: the state a list of actions leaves when each runs on
  the state its predecessor left, and whether each of them succeeds on the way.
\<close>

fun runAll :: "('w \<Rightarrow> err option \<times> 'w) list \<Rightarrow> 'w \<Rightarrow> 'w" where
  "runAll [] w = w"
| "runAll (a # as) w = runAll as (snd (a w))"

fun allSucceed :: "('w \<Rightarrow> err option \<times> 'w) list \<Rightarrow> 'w \<Rightarrow> bool" where
  "allSucceed [] w = True"
| "allSucceed (a # as) w = (fst (a w) = None \<and> allSucceed as (snd (a w)))"


definition rollbackLines :: "string list \<Rightarrow> string list" where
  "rollbackLines ns = concat (map (\<lambda>n. [''Rolling back: '' @ n, ''Rolled back: '' @ n]) ns)"

subsection \<open>The plan of a rollback\<close>

text \<open>
  The names \<open>Rollback\<close> works through when nothing fails: batch by batch from the last
  batch down to \<open>lo\<close>, each batch from its newest row to its oldest.
\<close>

definition rollbackPlan :: "LedgerEntry list \<Rightarrow> int \<Rightarrow> string list" where
  "rollbackPlan rows lo =
     concat (map (\<lambda>b. rev (map migration (filter (\<lambda>r. batch r = b) rows)))
                 (rev [lo .. lastBatchOf rows]))"

subsection \<open>Reachable ledgers\<close>

text \<open>
  The states a ledger can be in: it starts empty; \<open>Migrate\<close> is called with units of pairwise
  distinct names; \<open>Rollback\<close> and \<open>Reset\<close> are called with any units and steps; between
  the calls, everything but the ledger may change.
\<close>

inductive reachable :: "'w system \<Rightarrow> bool" where
  start: "ledger s = [] \<Longrightarrow> reachable s"
| migrate: "reachable s \<Longrightarrow> distinct (map Name ms) \<Longrightarrow> reachable (snd (Migrate ms s))"
| rollback: "reachable s \<Longrightarrow> reachable (snd (Rollback ms steps s))"
| reset: "reachable s \<Longrightarrow> reachable (snd (Reset ms s))"
| environment: "reachable s \<Longrightarrow> ledger s' = ledger s \<Longrightarrow> reachable s'"

section \<open>Example inputs\<close>

text \<open>The table of \<open>TestDefaultValuesSQL\<close>, with a string column added.\<close>

definition defaultsStore :: store where
  "defaultsStore =
    \<lparr>colStore =
       [zeroColumn\<lparr>name := ''id'', dataType := ''uuid'', primary := True\<rparr>,
        zeroColumn\<lparr>name := ''active'', dataType := ''boolean'', defaultValue := Some ''true''\<rparr>,
        zeroColumn\<lparr>name := ''status'', dataType := ''integer'', defaultValue := Some ''1''\<rparr>,
        zeroColumn\<lparr>name := ''role'', dataType := ''string'', defaultValue := Some ''guest'',
          afterColumn := Some ''id''\<rparr>],
     fkStore = [], tbStore = [], currentBuilder = None\<rparr>"

definition defaultsTable :: TableBuilder where
  "defaultsTable = \<lparr>tableName = ''users'', columns = [0, 1, 2, 3], operation = [],
     foreignKeys = []\<rparr>"

text \<open>A store with one table builder and no current builder.\<close>

definition idleStore :: store where
  "idleStore =
    \<lparr>colStore = [], fkStore = [],
     tbStore = [\<lparr>tableName = ''users'', columns = [], operation = ''create'', foreignKeys = []\<rparr>],
     currentBuilder = None\<rparr>"

text \<open>
  Units for examples. The caller's state is the list of the actions that have run; a unit of
  \<open>logUnit\<close> adds its action to the list, and one of \<open>failingUnit\<close> does so and returns
  an error.
\<close>

definition logUnit :: "string \<Rightarrow> (string list) Migration" where
  "logUnit n = \<lparr>Name = n, Up = (\<lambda>w. (None, w @ [''up '' @ n])),
                Down = (\<lambda>w. (None, w @ [''down '' @ n]))\<rparr>"

definition failingUnit :: "string \<Rightarrow> (string list) Migration" where
  "failingUnit n = \<lparr>Name = n, Up = (\<lambda>w. (Some (Base ''boom''), w @ [''up '' @ n])),
                    Down = (\<lambda>w. (Some (Base ''boom''), w @ [''down '' @ n]))\<rparr>"

definition ledgerWith :: "LedgerEntry list \<Rightarrow> (string list) system" where
  "ledgerWith rows = \<lparr>ledger = rows, faults = [], console = [], world = []\<rparr>"

text \<open>
  A ledger with one row of batch 1 and three rows of batch 2, inserted in the order
  \<open>a\<close>, \<open>b\<close>, \<open>c\<close>.
\<close>

definition twoBatches :: "(string list) system" where
  "twoBatches = ledgerWith
     [\<lparr>entry_id = 1, migration = ''z'', batch = 1\<rparr>,
      \<lparr>entry_id = 2, migration = ''a'', batch = 2\<rparr>,
      \<lparr>entry_id = 3, migration = ''b'', batch = 2\<rparr>,
      \<lparr>entry_id = 4, migration = ''c'', batch = 2\<rparr>]"

section \<open>Type mapping: the table\<close>

lemma decimalType_Cons:
  "decimalType p s = CHR ''d'' # CHR ''e'' # CHR ''c'' # CHR ''i'' # CHR ''m'' # CHR ''a'' #
     CHR ''l'' # ''('' @ itoa p @ '','' @ itoa s @ '')''"
  by (simp add: decimalType_def)

lemma Postgres_simple:
  "GetDataType PostgresDialect (c\<lparr>dataType := ''uuid''\<rparr>) = ''UUID''"
  "GetDataType PostgresDialect (c\<lparr>dataType := ''string''\<rparr>) = ''VARCHAR(255)''"
  "GetDataType PostgresDialect (c\<lparr>dataType := ''text''\<rparr>) = ''TEXT''"
  "GetDataType PostgresDialect (c\<lparr>dataType := ''integer''\<rparr>) =
     (if autoIncrement c then ''SERIAL'' else ''INTEGER'')"
  "GetDataType PostgresDialect (c\<lparr>dataType := ''bigint''\<rparr>) =
     (if autoIncrement c then ''BIGSERIAL'' else ''BIGINT'')"
  "GetDataType PostgresDialect (c\<lparr>dataType := ''boolean''\<rparr>) = ''BOOLEAN''"
  "GetDataType PostgresDialect (c\<lparr>dataType := ''timestamp''\<rparr>) = ''TIMESTAMP''"
  "GetDataType PostgresDialect (c\<lparr>dataType := ''date''\<rparr>) = ''DATE''"
  "GetDataType PostgresDialect (c\<lparr>dataType := ''json''\<rparr>) = ''JSONB''"
  by (simp_all add: PostgresDialect_GetDataType_def)

lemma MySQL_simple:
  "GetDataType MySQLDialect (c\<lparr>dataType := ''uuid''\<rparr>) = ''CHAR(36)''"
  "GetDataType MySQLDialect (c\<lparr>dataType := ''string''\<rparr>) = ''VARCHAR(255)''"
  "GetDataType MySQLDialect (c\<lparr>dataType := ''text''\<rparr>) = ''TEXT''"
  "GetDataType MySQLDialect (c\<lparr>dataType := ''integer''\<rparr>) = ''INT''"
  "GetDataType MySQLDialect (c\<lparr>dataType := ''bigint''\<rparr>) = ''BIGINT''"
  "GetDataType MySQLDialect (c\<lparr>dataType := ''boolean''\<rparr>) = ''TINYINT(1)''"
  "GetDataType MySQLDialect (c\<lparr>dataType := ''timestamp''\<rparr>) = ''TIMESTAMP''"
  "GetDataType MySQLDialect (c\<lparr>dataType := ''date''\<rparr>) = ''DATE''"
  "GetDataType MySQLDialect (c\<lparr>dataType := ''json''\<rparr>) = ''JSON''"
  by (simp_all add: MySQLDialect_GetDataType_def)

lemma SQLite_simple:
  "GetDataType SQLiteDialect (c\<lparr>dataType := ''uuid''\<rparr>) = ''TEXT''"
  "GetDataType SQLiteDialect (c\<lparr>dataType := ''string''\<rparr>) = ''TEXT''"
  "GetDataType SQLiteDialect (c\<lparr>dataType := ''text''\<rparr>) = ''TEXT''"
  "GetDataType SQLiteDialect (c\<lparr>dataType := ''integer''\<rparr>) = ''INTEGER''"
  "GetDataType SQLiteDialect (c\<lparr>dataType := ''bigint''\<rparr>) = ''INTEGER''"
  "GetDataType SQLiteDialect (c\<lparr>dataType := ''boolean''\<rparr>) = ''INTEGER''"
  "GetDataType SQLiteDialect (c\<lparr>dataType := ''timestamp''\<rparr>) = ''TEXT''"
  "GetDataType SQLiteDialect (c\<lparr>dataType := ''date''\<rparr>) = ''TEXT''"
  "GetDataType SQLiteDialect (c\<lparr>dataType := ''json''\<rparr>) = ''TEXT''"
  by (simp_all add: SQLiteDialect_GetDataType_def)

lemma decimal_mapping:
  "GetDataType PostgresDialect (c\<lparr>dataType := decimalType p s\<rparr>) =
     ''DECIMAL('' @ itoa p @ '','' @ itoa s @ '')''"
  "GetDataType MySQLDialect (c\<lparr>dataType := decimalType p s\<rparr>) =
     ''DECIMAL('' @ itoa p @ '','' @ itoa s @ '')''"
  "GetDataType SQLiteDialect (c\<lparr>dataType := decimalType p s\<rparr>) = ''REAL''"
  by (simp_all add: PostgresDialect_GetDataType_def MySQLDialect_GetDataType_def
      SQLiteDialect_GetDataType_def decimalType_Cons HasPrefix_def TrimPrefix_def)

text \<open>
  C1. For each of the three dialects and each semantic type a column-declaration function
  produces (the type strings uuid, string, text, integer, bigint, boolean, timestamp, date,
  json, and decimal(p,s) for any precision and scale), \<open>GetDataType\<close> returns the native
  type of the type-mapping table, whatever the other fields of the column are; an
  auto-increment integer is SERIAL and an auto-increment big integer BIGSERIAL in the
  Postgres dialect, and the flag changes nothing in the other two.
\<close>

theorem type_mapping_table:
  "GetDataType PostgresDialect (c\<lparr>dataType := ''uuid''\<rparr>) = ''UUID''
 \<and> GetDataType PostgresDialect (c\<lparr>dataType := ''string''\<rparr>) = ''VARCHAR(255)''
 \<and> GetDataType PostgresDialect (c\<lparr>dataType := ''text''\<rparr>) = ''TEXT''
 \<and> GetDataType PostgresDialect (c\<lparr>dataType := ''integer''\<rparr>) =
     (if autoIncrement c then ''SERIAL'' else ''INTEGER'')
 \<and> GetDataType PostgresDialect (c\<lparr>dataType := ''bigint''\<rparr>) =
     (if autoIncrement c then ''BIGSERIAL'' else ''BIGINT'')
 \<and> GetDataType PostgresDialect (c\<lparr>dataType := ''boolean''\<rparr>) = ''BOOLEAN''
 \<and> GetDataType PostgresDialect (c\<lparr>dataType := decimalType p s\<rparr>) =
     ''DECIMAL('' @ itoa p @ '','' @ itoa s @ '')''
 \<and> GetDataType PostgresDialect (c\<lparr>dataType := ''timestamp''\<rparr>) = ''TIMESTAMP''
 \<and> GetDataType PostgresDialect (c\<lparr>dataType := ''date''\<rparr>) = ''DATE''
 \<and> GetDataType PostgresDialect (c\<lparr>dataType := ''json''\<rparr>) = ''JSONB''
 \<and> GetDataType MySQLDialect (c\<lparr>dataType := ''uuid''\<rparr>) = ''CHAR(36)''
 \<and> GetDataType MySQLDialect (c\<lparr>dataType := ''string''\<rparr>) = ''VARCHAR(255)''
 \<and> GetDataType MySQLDialect (c\<lparr>dataType := ''text''\<rparr>) = ''TEXT''
 \<and> GetDataType MySQLDialect (c\<lparr>dataType := ''integer''\<rparr>) = ''INT''
 \<and> GetDataType MySQLDialect (c\<lparr>dataType := ''bigint''\<rparr>) = ''BIGINT''
 \<and> GetDataType MySQLDialect (c\<lparr>dataType := ''boolean''\<rparr>) = ''TINYINT(1)''
 \<and> GetDataType MySQLDialect (c\<lparr>dataType := decimalType p s\<rparr>) =
     ''DECIMAL('' @ itoa p @ '','' @ itoa s @ '')''
 \<and> GetDataType MySQLDialect (c\<lparr>dataType := ''timestamp''\<rparr>) = ''TIMESTAMP''
 \<and> GetDataType MySQLDialect (c\<lparr>dataType := ''date''\<rparr>) = ''DATE''
 \<and> GetDataType MySQLDialect (c\<lparr>dataType := ''json''\<rparr>) = ''JSON''
 \<and> GetDataType SQLiteDialect (c\<lparr>dataType := ''uuid''\<rparr>) = ''TEXT''
 \<and> GetDataType SQLiteDialect (c\<lparr>dataType := ''string''\<rparr>) = ''TEXT''
 \<and> GetDataType SQLiteDialect (c\<lparr>dataType := ''text''\<rparr>) = ''TEXT''
 \<and> GetDataType SQLiteDialect (c\<lparr>dataType := ''integer''\<rparr>) = ''INTEGER''
 \<and> GetDataType SQLiteDialect (c\<lparr>dataType := ''bigint''\<rparr>) = ''INTEGER''
 \<and> GetDataType SQLiteDialect (c\<lparr>dataType := ''boolean''\<rparr>) = ''INTEGER''
 \<and> GetDataType SQLiteDialect (c\<lparr>dataType := decimalType p s\<rparr>) = ''REAL''
 \<and> GetDataType SQLiteDialect (c\<lparr>dataType := ''timestamp''\<rparr>) = ''TEXT''
 \<and> GetDataType SQLiteDialect (c\<lparr>dataType := ''date''\<rparr>) = ''TEXT''
 \<and> GetDataType SQLiteDialect (c\<lparr>dataType := ''json''\<rparr>) = ''TEXT''"
  unfolding Postgres_simple MySQL_simple SQLite_simple decimal_mapping
  by simp

section \<open>Type mapping: type strings outside the switch\<close>







section \<open>Rendering of default literals\<close>

lemma sublist_Join: "x \<in> set xs \<Longrightarrow> sublist x (Join xs sep)"
proof (induction xs sep rule: Join.induct)
  case (1 sep)
  then show ?case by simp
next
  case (2 y sep)
  then show ?case by simp
next
  case (3 y z ys sep)
  show ?case
  proof (cases "x = y")
    case True
    then show ?thesis by simp
  next
    case False
    with 3 have "sublist x (Join (z # ys) sep)" by simp
    then obtain a b where "Join (z # ys) sep = a @ x @ b"
      by (auto simp: sublist_def)
    then have "Join (y # z # ys) sep = (y @ sep @ a) @ x @ b" by simp
    then show ?thesis unfolding sublist_def by blast
  qed
qed

lemma sublist_transitive: "sublist x y \<Longrightarrow> sublist y z \<Longrightarrow> sublist x z"
proof -
  assume "sublist x y" and "sublist y z"
  then obtain a b c d where "y = a @ x @ b" and "z = c @ y @ d"
    by (auto simp: sublist_def)
  then have "z = (c @ a) @ x @ (b @ d)" by simp
  then show ?thesis unfolding sublist_def by blast
qed

lemma sublist_Join3: "sublist x b \<Longrightarrow> sublist x (Join [a, b, c] sep)"
proof -
  assume "sublist x b"
  moreover have "sublist b (Join [a, b, c] sep)" by (rule sublist_Join) simp
  ultimately show ?thesis by (rule sublist_transitive)
qed

lemma columnDef_in_create:
  "col \<in> set (tbColumns st tb) \<Longrightarrow> sublist (columnDef d col) (BuildCreateTable d st tb)"
proof (cases d)
  case PostgresDialect
  assume "col \<in> set (tbColumns st tb)"
  then show ?thesis
    unfolding PostgresDialect BuildCreateTable.simps columnDef.simps
      PostgresDialect_BuildCreateTable_def Let_def
    by (intro sublist_Join3 sublist_Join) simp
next
  case MySQLDialect
  assume "col \<in> set (tbColumns st tb)"
  then show ?thesis
    unfolding MySQLDialect BuildCreateTable.simps columnDef.simps
      MySQLDialect_BuildCreateTable_def Let_def
    by (intro sublist_Join3 sublist_Join) simp
next
  case SQLiteDialect
  assume "col \<in> set (tbColumns st tb)"
  then show ?thesis
    unfolding SQLiteDialect BuildCreateTable.simps columnDef.simps
      SQLiteDialect_BuildCreateTable_def Let_def
    by (intro sublist_Join3 sublist_Join) simp
qed

lemma columnDef_default:
  "defaultValue col = Some v \<Longrightarrow>
   suffix ('' DEFAULT '' @ defaultLiteral col v) (columnDef d col)"
  by (cases d)
    (simp_all add: PostgresDialect_columnDef_def MySQLDialect_columnDef_def
      SQLiteDialect_columnDef_def defaultLiteral_def Let_def suffix_def)

lemma addColumn_in_modify:
  "col \<in> set (tbColumns st tb) \<Longrightarrow>
   addColumn d (tableName tb) col \<in> set (BuildModifyTable d st tb)"
  by (cases d)
    (simp_all add: PostgresDialect_BuildModifyTable_def MySQLDialect_BuildModifyTable_def
      SQLiteDialect_BuildModifyTable_def)

lemma addColumn_default:
  "defaultValue col = Some v \<Longrightarrow>
   suffix ('' DEFAULT '' @ defaultLiteral col v @ afterClause d col) (addColumn d tn col)"
  by (cases d)
    (simp_all add: PostgresDialect_addColumn_def MySQLDialect_addColumn_def
      SQLiteDialect_addColumn_def defaultLiteral_def afterClause_def Let_def suffix_def
      split: option.split)

lemma suffix_sublist_app: "suffix (x @ y) z \<Longrightarrow> sublist x z"
  by (auto simp: suffix_def sublist_def)

lemma suffix_sublist_trans: "suffix x y \<Longrightarrow> sublist y z \<Longrightarrow> sublist x z"
proof -
  assume "suffix x y" and yz: "sublist y z"
  then have "sublist x y" by (auto simp: suffix_def sublist_def intro: exI [of _ "[]"])
  then show ?thesis using yz by (rule sublist_transitive)
qed

text \<open>
  C8. Let \<open>col\<close> be a column of the table \<open>tb\<close> with the default literal \<open>v\<close>, and \<open>d\<close> any
  dialect. The text the column contributes to CREATE TABLE is a segment of the statement and
  ends with \<open>DEFAULT v\<close> when the type string is boolean, integer or bigint, and with
  \<open>DEFAULT 'v'\<close> for every other type string; so the statement contains the default in that
  form. The column's ADD COLUMN statement is among the statements of \<open>BuildModifyTable\<close> and
  ends with the same clause (followed by \<open>AFTER\<close> and the position in MySQL, when the column
  has one); so it contains the default in that form too.
\<close>

theorem default_rendering:
  assumes "p \<in> set (columns tb)"
    and "defaultValue (colStore st ! p) = Some v"
  shows "sublist (columnDef d (colStore st ! p)) (BuildCreateTable d st tb)
       \<and> suffix ('' DEFAULT '' @
            (if dataType (colStore st ! p) = ''boolean'' \<or> dataType (colStore st ! p) = ''integer''
                \<or> dataType (colStore st ! p) = ''bigint''
             then v else squote @ v @ squote))
           (columnDef d (colStore st ! p))
       \<and> sublist ('' DEFAULT '' @
            (if dataType (colStore st ! p) = ''boolean'' \<or> dataType (colStore st ! p) = ''integer''
                \<or> dataType (colStore st ! p) = ''bigint''
             then v else squote @ v @ squote))
           (BuildCreateTable d st tb)
       \<and> addColumn d (tableName tb) (colStore st ! p) \<in> set (BuildModifyTable d st tb)
       \<and> suffix ('' DEFAULT '' @
            (if dataType (colStore st ! p) = ''boolean'' \<or> dataType (colStore st ! p) = ''integer''
                \<or> dataType (colStore st ! p) = ''bigint''
             then v else squote @ v @ squote) @ afterClause d (colStore st ! p))
           (addColumn d (tableName tb) (colStore st ! p))
       \<and> sublist ('' DEFAULT '' @
            (if dataType (colStore st ! p) = ''boolean'' \<or> dataType (colStore st ! p) = ''integer''
                \<or> dataType (colStore st ! p) = ''bigint''
             then v else squote @ v @ squote))
           (addColumn d (tableName tb) (colStore st ! p))"
proof -
  let ?col = "colStore st ! p"
  have mem: "?col \<in> set (tbColumns st tb)"
    using assms(1) by (simp add: tbColumns_def)
  have 1: "sublist (columnDef d ?col) (BuildCreateTable d st tb)"
    using mem by (rule columnDef_in_create)
  have 2: "suffix ('' DEFAULT '' @ defaultLiteral ?col v) (columnDef d ?col)"
    using assms(2) by (rule columnDef_default)
  have 3: "sublist ('' DEFAULT '' @ defaultLiteral ?col v) (BuildCreateTable d st tb)"
    using 2 1 by (rule suffix_sublist_trans)
  have 4: "addColumn d (tableName tb) ?col \<in> set (BuildModifyTable d st tb)"
    using mem by (rule addColumn_in_modify)
  have 5: "suffix ('' DEFAULT '' @ defaultLiteral ?col v @ afterClause d ?col)
             (addColumn d (tableName tb) ?col)"
    using assms(2) by (rule addColumn_default)
  have "suffix (('' DEFAULT '' @ defaultLiteral ?col v) @ afterClause d ?col)
             (addColumn d (tableName tb) ?col)"
    using 5 by simp
  then have 6: "sublist ('' DEFAULT '' @ defaultLiteral ?col v) (addColumn d (tableName tb) ?col)"
    by (rule suffix_sublist_app)
  show ?thesis
    using 1 2 3 4 5 6 unfolding defaultLiteral_def by blast
qed

theorem default_rendering_witness:
  "1 \<in> set (columns defaultsTable)
   \<and> defaultValue (colStore defaultsStore ! 1) = Some ''true''
   \<and> sublist '' DEFAULT true'' (BuildCreateTable PostgresDialect defaultsStore defaultsTable)
   \<and> suffix '' DEFAULT true''
       (addColumn SQLiteDialect ''users'' (colStore defaultsStore ! 1))
   \<and> 3 \<in> set (columns defaultsTable)
   \<and> defaultValue (colStore defaultsStore ! 3) = Some ''guest''
   \<and> sublist ('' DEFAULT '' @ squote @ ''guest'' @ squote)
       (BuildCreateTable MySQLDialect defaultsStore defaultsTable)
   \<and> suffix ('' DEFAULT '' @ squote @ ''guest'' @ squote @ '' AFTER id'')
       (addColumn MySQLDialect ''users'' (colStore defaultsStore ! 3))"
proof -
  have p1: "1 \<in> set (columns defaultsTable)"
    and p3: "3 \<in> set (columns defaultsTable)"
    by (simp_all add: defaultsTable_def)
  have d1: "defaultValue (colStore defaultsStore ! 1) = Some ''true''"
    and d3: "defaultValue (colStore defaultsStore ! 3) = Some ''guest''"
    by (simp_all add: defaultsStore_def zeroColumn_def)
  have t1: "dataType (colStore defaultsStore ! 1) = ''boolean''"
    and t3: "dataType (colStore defaultsStore ! 3) = ''string''"
    and a3: "afterClause MySQLDialect (colStore defaultsStore ! 3) = '' AFTER id''"
    and a1: "afterClause SQLiteDialect (colStore defaultsStore ! 1) = []"
    and n: "tableName defaultsTable = ''users''"
    by (simp_all add: defaultsStore_def defaultsTable_def zeroColumn_def afterClause_def)
  from default_rendering [OF p1 d1, of PostgresDialect]
  have c1: "sublist '' DEFAULT true'' (BuildCreateTable PostgresDialect defaultsStore defaultsTable)"
    unfolding t1 by simp
  from default_rendering [OF p1 d1, of SQLiteDialect]
  have c2: "suffix '' DEFAULT true'' (addColumn SQLiteDialect ''users'' (colStore defaultsStore ! 1))"
    unfolding t1 a1 n by simp
  from default_rendering [OF p3 d3, of MySQLDialect]
  have c3: "sublist ('' DEFAULT '' @ squote @ ''guest'' @ squote)
       (BuildCreateTable MySQLDialect defaultsStore defaultsTable)"
    unfolding t3 by simp
  from default_rendering [OF p3 d3, of MySQLDialect]
  have c4: "suffix ('' DEFAULT '' @ squote @ ''guest'' @ squote @ '' AFTER id'')
       (addColumn MySQLDialect ''users'' (colStore defaultsStore ! 3))"
    unfolding t3 a3 n by simp
  show ?thesis using p1 p3 d1 d3 c1 c2 c3 c4 by blast
qed

section \<open>Declarations outside a callback\<close>

lemma append_to_nil_builder:
  "currentBuilder st = None \<Longrightarrow>
   appendToCurrentColumns col (st\<lparr>colStore := cs\<rparr>) = st\<lparr>colStore := cs\<rparr>"
  "currentBuilder st = None \<Longrightarrow>
   appendToCurrentForeignKeys fk (st\<lparr>fkStore := fs\<rparr>) = st\<lparr>fkStore := fs\<rparr>"
  by (simp_all add: appendToCurrentColumns_def appendToCurrentForeignKeys_def)

text \<open>
  For contrast: while a builder \<open>b\<close> is current, a declaration appends the new column's
  address to the columns of \<open>b\<close>.
\<close>

lemma declaration_inside_callback:
  assumes "currentBuilder st = Some b" and "b < length (tbStore st)"
  shows "columns (tbStore (snd (Uuid n st)) ! b) = columns (tbStore st ! b) @ [length (colStore st)]"
    and "foreignKeys (tbStore (snd (Foreign n st)) ! b)
           = foreignKeys (tbStore st ! b) @ [length (fkStore st)]"
  using assms
  by (simp_all add: Uuid_def Foreign_def newColumn_def newForeignKey_def
      appendToCurrentColumns_def appendToCurrentForeignKeys_def)

text \<open>
  C10. While \<open>currentBuilder\<close> is nil, each column-declaration function returns a handle to a
  newly allocated column and changes nothing else: the store afterwards is the store before
  with the new column object added, so every table builder (\<^const>\<open>tbStore\<close>) has the
  columns and foreign keys it had, and the new column is in none of them. The same holds
  for \<open>Foreign\<close> with a new foreign key, and for \<open>Timestamps\<close> and \<open>SoftDeletes\<close>, which
  allocate their nullable timestamp columns and return nothing. None of these functions has
  an error result.
\<close>

theorem declaration_without_builder_discarded:
  assumes "currentBuilder st = None"
  shows "Uuid n st = (ColumnBuilder (length (colStore st)),
           st\<lparr>colStore := colStore st @ [zeroColumn\<lparr>name := n, dataType := ''uuid''\<rparr>]\<rparr>)
       \<and> String n st = (ColumnBuilder (length (colStore st)),
           st\<lparr>colStore := colStore st @ [zeroColumn\<lparr>name := n, dataType := ''string''\<rparr>]\<rparr>)
       \<and> Text n st = (ColumnBuilder (length (colStore st)),
           st\<lparr>colStore := colStore st @ [zeroColumn\<lparr>name := n, dataType := ''text''\<rparr>]\<rparr>)
       \<and> Integer n st = (ColumnBuilder (length (colStore st)),
           st\<lparr>colStore := colStore st @ [zeroColumn\<lparr>name := n, dataType := ''integer''\<rparr>]\<rparr>)
       \<and> BigInteger n st = (ColumnBuilder (length (colStore st)),
           st\<lparr>colStore := colStore st @ [zeroColumn\<lparr>name := n, dataType := ''bigint''\<rparr>]\<rparr>)
       \<and> Boolean n st = (ColumnBuilder (length (colStore st)),
           st\<lparr>colStore := colStore st @ [zeroColumn\<lparr>name := n, dataType := ''boolean''\<rparr>]\<rparr>)
       \<and> Decimal n precision scale st = (ColumnBuilder (length (colStore st)),
           st\<lparr>colStore := colStore st
              @ [zeroColumn\<lparr>name := n, dataType := decimalType precision scale\<rparr>]\<rparr>)
       \<and> Timestamp n st = (ColumnBuilder (length (colStore st)),
           st\<lparr>colStore := colStore st @ [zeroColumn\<lparr>name := n, dataType := ''timestamp''\<rparr>]\<rparr>)
       \<and> Date n st = (ColumnBuilder (length (colStore st)),
           st\<lparr>colStore := colStore st @ [zeroColumn\<lparr>name := n, dataType := ''date''\<rparr>]\<rparr>)
       \<and> Json n st = (ColumnBuilder (length (colStore st)),
           st\<lparr>colStore := colStore st @ [zeroColumn\<lparr>name := n, dataType := ''json''\<rparr>]\<rparr>)
       \<and> Timestamps st =
           st\<lparr>colStore := colStore st @
              [zeroColumn\<lparr>name := ''created_at'', dataType := ''timestamp'', nullable := True\<rparr>,
               zeroColumn\<lparr>name := ''updated_at'', dataType := ''timestamp'', nullable := True\<rparr>]\<rparr>
       \<and> SoftDeletes st =
           st\<lparr>colStore := colStore st @
              [zeroColumn\<lparr>name := ''deleted_at'', dataType := ''timestamp'', nullable := True\<rparr>]\<rparr>
       \<and> Foreign n st = (ForeignKeyBuilder (length (fkStore st)),
           st\<lparr>fkStore := fkStore st @ [zeroForeignKey\<lparr>column := n\<rparr>]\<rparr>)"
  using assms
  by (simp add: Uuid_def String_def Text_def Integer_def BigInteger_def Boolean_def Timestamp_def Date_def Json_def Decimal_def Timestamps_def SoftDeletes_def Nullable_def Foreign_def
      newColumn_def newForeignKey_def append_to_nil_builder zeroColumn_def zeroForeignKey_def
      nth_append list_update_append)

theorem declaration_without_builder_discarded_witness:
  "currentBuilder idleStore = None
   \<and> fst (Uuid ''id'' idleStore) = ColumnBuilder 0
   \<and> colStore (snd (Uuid ''id'' idleStore)) = [zeroColumn\<lparr>name := ''id'', dataType := ''uuid''\<rparr>]
   \<and> tbStore (snd (Uuid ''id'' idleStore)) = tbStore idleStore
   \<and> columns (tbStore (snd (Uuid ''id'' idleStore)) ! 0) = []
   \<and> fst (Foreign ''user_id'' idleStore) = ForeignKeyBuilder 0
   \<and> tbStore (snd (Foreign ''user_id'' idleStore)) = tbStore idleStore
   \<and> tbStore (Timestamps idleStore) = tbStore idleStore"
proof -
  have h: "currentBuilder idleStore = None"
    by (simp add: idleStore_def)
  show ?thesis
    using h declaration_without_builder_discarded [OF h, of "''id''"]
      declaration_without_builder_discarded [OF h, of "''user_id''"]
    by (simp add: idleStore_def)
qed

section \<open>Migrate: pending units in name order\<close>

lemma dbCall_ok: "faults s = [] \<Longrightarrow> dbCall s = (None, s)"
  by (simp add: dbCall_def)

lemma GetLastBatch_ok: "faults s = [] \<Longrightarrow> GetLastBatch s = (Inr (lastBatchOf (ledger s)), s)"
  by (simp add: GetLastBatch_def dbCall_ok)



lemma RemoveMigration_ok:
  "faults s = [] \<Longrightarrow>
   RemoveMigration n s = (None, s\<lparr>ledger := filter (\<lambda>r. migration r \<noteq> n) (ledger s)\<rparr>)"
  by (simp add: RemoveMigration_def dbCall_ok)

lemma GetMigrationsFromBatch_ok:
  "faults s = [] \<Longrightarrow> GetMigrationsFromBatch b s = (Inr (batchNames (ledger s) b), s)"
  by (simp add: GetMigrationsFromBatch_def dbCall_ok)



lemma distinct_map_sort_key: "distinct (map f (sort_key f xs)) = distinct (map f xs)"
  by (induction xs) (simp_all add: distinct_insort_key)







section \<open>Rollback: the inner loop\<close>

lemma rollbackNames_append:
  "rollbackNames mp (xs @ ys) s =
    (case rollbackNames mp xs s of
       (Some e, s') \<Rightarrow> (Some e, s')
     | (None, s') \<Rightarrow> rollbackNames mp ys s')"
  by (induction xs arbitrary: s) (auto split: option.splits prod.splits simp: Let_def)

lemma rollbackNames_None:
  "faults s = [] \<Longrightarrow> rollbackNames mp ns s = (None, s') \<Longrightarrow>
   faults s' = [] \<and> ledger s' = filter (\<lambda>r. migration r \<notin> set ns) (ledger s)"
proof (induction ns arbitrary: s)
  case Nil
  then show ?case by simp
next
  case (Cons n ns)
  from Cons.prems(2) obtain m where m: "mp n = Some m"
    by (cases "mp n") auto
  let ?s1 = "Println (''Rolling back: '' @ n) s"
  from Cons.prems(2) m obtain w where w: "Down m (world ?s1) = (None, w)"
    by (cases "Down m (world ?s1)") (auto simp: Let_def split: option.splits)
  let ?s2 = "(?s1\<lparr>world := w\<rparr>)\<lparr>ledger := filter (\<lambda>r. migration r \<noteq> n) (ledger s)\<rparr>"
  have rm: "RemoveMigration n (?s1\<lparr>world := w\<rparr>) = (None, ?s2)"
    using Cons.prems(1) by (simp add: RemoveMigration_ok Println_def)
  let ?s3 = "Println (''Rolled back: '' @ n) ?s2"
  have rest: "rollbackNames mp ns ?s3 = (None, s')"
    using Cons.prems(2) m w rm by (simp add: Let_def)
  have f3: "faults ?s3 = []" using Cons.prems(1) by (simp add: Println_def)
  from Cons.IH [OF f3 rest] show ?case
    by (auto simp: Println_def intro: filter_cong)
qed

lemma rollbackNames_prefix:
  assumes "faults s = []" and "set pre \<subseteq> dom mp"
    and "allSucceed (map (\<lambda>n. Down (the (mp n))) pre) (world s)"
  shows "\<exists>s'. rollbackNames mp (pre @ rest) s = rollbackNames mp rest s'
      \<and> faults s' = []
      \<and> world s' = runAll (map (\<lambda>n. Down (the (mp n))) pre) (world s)
      \<and> ledger s' = filter (\<lambda>r. migration r \<notin> set pre) (ledger s)
      \<and> console s' = console s @ rollbackLines pre"
  using assms
proof (induction pre arbitrary: s)
  case Nil
  then show ?case by (intro exI [of _ s]) (simp add: rollbackLines_def)
next
  case (Cons n pre)
  from Cons.prems(2) obtain m where m: "mp n = Some m" by auto
  from Cons.prems(3) m have ok: "fst (Down m (world s)) = None"
    and more: "allSucceed (map (\<lambda>n. Down (the (mp n))) pre) (snd (Down m (world s)))"
    by simp_all
  let ?s1 = "s\<lparr>world := snd (Down m (world s)),
         ledger := filter (\<lambda>r. migration r \<noteq> n) (ledger s),
         console := console s @ [''Rolling back: '' @ n, ''Rolled back: '' @ n]\<rparr>"
  obtain w where w: "Down m (world s) = (None, w)"
    using ok by (cases "Down m (world s)") auto
  have step: "rollbackNames mp ((n # pre) @ rest) s = rollbackNames mp (pre @ rest) ?s1"
    using m w Cons.prems(1) by (simp add: Println_def RemoveMigration_ok)
  have f1: "faults ?s1 = []" using Cons.prems(1) by simp
  have sub: "set pre \<subseteq> dom mp" using Cons.prems(2) by simp
  have more': "allSucceed (map (\<lambda>n. Down (the (mp n))) pre) (world ?s1)"
    using more by simp
  from Cons.IH [OF f1 sub more'] obtain s' where
    a: "rollbackNames mp (pre @ rest) ?s1 = rollbackNames mp rest s'"
    and b: "faults s' = []"
    and c: "world s' = runAll (map (\<lambda>n. Down (the (mp n))) pre) (world ?s1)"
    and d: "ledger s' = filter (\<lambda>r. migration r \<notin> set pre) (ledger ?s1)"
    and g: "console s' = console ?s1 @ rollbackLines pre"
    by blast
  show ?case
    apply (rule exI [of _ s'])
    using step a b c d g m
    by (auto simp: rollbackLines_def intro: filter_cong)
qed

section \<open>Rollback: the batches\<close>

lemma set_batchNames:
  "set (batchNames rows b) = migration ` {r \<in> set rows. batch r = b}"
  by (auto simp: batchNames_def)

lemma batchNames_after_removal:
  assumes "distinct (map migration rows)" and "b' \<noteq> b"
  shows "batchNames (filter (\<lambda>r. migration r \<notin> set (batchNames rows b)) rows) b'
         = batchNames rows b'"
proof -
  have inj: "inj_on migration (set rows)"
    using assms(1) by (simp add: distinct_map)
  have "filter (\<lambda>r. batch r = b') (filter (\<lambda>r. migration r \<notin> set (batchNames rows b)) rows)
        = filter (\<lambda>r. batch r = b') rows"
    unfolding filter_filter
  proof (rule filter_cong [OF refl])
    fix r assume r: "r \<in> set rows"
    show "(migration r \<notin> set (batchNames rows b) \<and> batch r = b') = (batch r = b')"
    proof (cases "batch r = b'")
      case False then show ?thesis by simp
    next
      case True
      have "migration r \<notin> set (batchNames rows b)"
      proof
        assume "migration r \<in> set (batchNames rows b)"
        then obtain r' where "r' \<in> set rows" "batch r' = b" "migration r' = migration r"
          by (auto simp: set_batchNames)
        with inj r have "r' = r" by (auto dest: inj_onD)
        with \<open>batch r' = b\<close> True assms(2) show False by simp
      qed
      with True show ?thesis by simp
    qed
  qed
  then show ?thesis by (simp add: batchNames_def)
qed

lemma rollbackLoop_plan:
  "faults s = [] \<Longrightarrow> distinct (map migration (ledger s)) \<Longrightarrow>
   rollbackLoop mp L steps i s =
     rollbackNames mp
       (concat (map (batchNames (ledger s)) (rev [max 1 (L - steps + 1) .. L - i]))) s"
proof (induction "nat (steps - i)" arbitrary: i s)
  case 0
  then have "\<not> i < steps" by simp
  moreover from this have "[max 1 (L - steps + 1) .. L - i] = []" by simp
  ultimately show ?case by (simp add: rollbackLoop.simps)
next
  case (Suc k)
  let ?lo = "max 1 (L - steps + 1)"
  let ?b = "L - i"
  from Suc.hyps(2) have lt: "i < steps" and k: "k = nat (steps - (i + 1))" by linarith+
  show ?case
  proof (cases "?b \<le> 0")
    case True
    then have "[?lo .. ?b] = []" by simp
    with True lt show ?thesis by (simp add: rollbackLoop.simps)
  next
    case False
    let ?names = "batchNames (ledger s) ?b"
    let ?rest = "concat (map (batchNames (ledger s)) (rev [?lo .. L - (i + 1)]))"
    have le: "?lo \<le> ?b" using False lt by simp
    have "[?lo .. ?b] = [?lo .. ?b - 1] @ [?b]" using le by (rule upto_rec2)
    moreover have "?b - 1 = L - (i + 1)" by simp
    ultimately have plan: "concat (map (batchNames (ledger s)) (rev [?lo .. ?b])) = ?names @ ?rest"
      by simp
    have loop: "rollbackLoop mp L steps i s =
        (if ?names = [] then rollbackLoop mp L steps (i + 1) s
         else (case rollbackNames mp ?names s of
                 (Some e, s') \<Rightarrow> (Some e, s')
               | (None, s') \<Rightarrow> rollbackLoop mp L steps (i + 1) s'))"
      using lt False Suc.prems(1)
      by (subst rollbackLoop.simps) (simp add: GetMigrationsFromBatch_ok Let_def)
    show ?thesis
    proof (cases "?names = []")
      case True
      with loop have "rollbackLoop mp L steps i s = rollbackLoop mp L steps (i + 1) s" by simp
      also have "\<dots> = rollbackNames mp ?rest s"
        using Suc.hyps(1) [OF k Suc.prems] .
      finally show ?thesis unfolding plan using True by simp
    next
      case False
      obtain r s2 where res: "rollbackNames mp ?names s = (r, s2)"
        by (cases "rollbackNames mp ?names s")
      show ?thesis
      proof (cases r)
        case (Some e)
        with loop False res show ?thesis
          unfolding plan by (simp add: rollbackNames_append)
      next
        case None
        with res have ok: "rollbackNames mp ?names s = (None, s2)" by simp
        from rollbackNames_None [OF Suc.prems(1) ok]
        have f2: "faults s2 = []"
          and l2: "ledger s2 = filter (\<lambda>r. migration r \<notin> set ?names) (ledger s)" by simp_all
        have d2: "distinct (map migration (ledger s2))"
          unfolding l2 using Suc.prems(2) by (rule distinct_map_filter)
        have same: "map (batchNames (ledger s2)) (rev [?lo .. L - (i + 1)])
                    = map (batchNames (ledger s)) (rev [?lo .. L - (i + 1)])"
        proof (rule map_cong [OF refl])
          fix b' assume "b' \<in> set (rev [?lo .. L - (i + 1)])"
          then have "b' \<noteq> ?b" by auto
          then show "batchNames (ledger s2) b' = batchNames (ledger s) b'"
            unfolding l2 using Suc.prems(2) by (intro batchNames_after_removal)
        qed
        have "rollbackLoop mp L steps i s = rollbackLoop mp L steps (i + 1) s2"
          using loop False ok by simp
        also have "\<dots> = rollbackNames mp ?rest s2"
          using Suc.hyps(1) [OF k f2 d2] unfolding same .
        finally show ?thesis
          unfolding plan using ok by (simp add: rollbackNames_append)
      qed
    qed
  qed
qed

lemma dom_fold_migrationMap:
  "dom (fold (\<lambda>m mp. mp(Name m \<mapsto> m)) ms mp0) = dom mp0 \<union> Name ` set ms"
  by (induction ms arbitrary: mp0) auto

lemma dom_migrationMap: "dom (migrationMap ms) = set (map Name ms)"
  by (simp add: migrationMap_def dom_fold_migrationMap)

lemma fold_migrationMap_notin:
  "n \<notin> Name ` set ms \<Longrightarrow> fold (\<lambda>m mp. mp(Name m \<mapsto> m)) ms mp0 n = mp0 n"
  by (induction ms arbitrary: mp0) auto

lemma migrationMap_distinct:
  "distinct (map Name ms) \<Longrightarrow> m \<in> set ms \<Longrightarrow> migrationMap ms (Name m) = Some m"
  unfolding migrationMap_def
proof (induction ms arbitrary: m rule: rev_induct)
  case Nil
  then show ?case by simp
next
  case (snoc x xs)
  show ?case
  proof (cases "m = x")
    case True
    then show ?thesis by simp
  next
    case False
    with snoc.prems have m: "m \<in> set xs" and d: "distinct (map Name xs)"
      and "Name x \<notin> Name ` set xs" by auto
    then have "Name m \<noteq> Name x" by (metis imageI)
    with snoc.IH [OF d m] show ?thesis by simp
  qed
qed

lemma batchNames_insertion_order:
  assumes "sorted_wrt (<) (map entry_id rows)"
  shows "batchNames rows b = rev (map migration (filter (\<lambda>r. batch r = b) rows))"
proof -
  have "sorted (map entry_id rows)"
    using assms by (rule strict_sorted_imp_sorted)
  then have "sorted (map entry_id (filter (\<lambda>r. batch r = b) rows))"
    by (rule sorted_filter)
  then have "sort_key entry_id (filter (\<lambda>r. batch r = b) rows) = filter (\<lambda>r. batch r = b) rows"
    by (rule sort_key_id_if_sorted)
  then show ?thesis by (simp add: batchNames_def rev_map)
qed

lemma sqlMax_None: "sqlMax xs = None \<longleftrightarrow> xs = []"
  by (induction xs) (auto split: option.splits)

lemma sqlMax_upper: "sqlMax xs = Some m \<Longrightarrow> x \<in> set xs \<Longrightarrow> x \<le> m"
  by (induction xs arbitrary: m) (auto split: option.splits simp: sqlMax_None)

lemma batch_le_lastBatchOf: "r \<in> set rows \<Longrightarrow> batch r \<le> lastBatchOf rows"
proof -
  assume r: "r \<in> set rows"
  then have "map batch rows \<noteq> []" by auto
  then obtain m where m: "sqlMax (map batch rows) = Some m"
    using sqlMax_None [of "map batch rows"] by (cases "sqlMax (map batch rows)") auto
  from sqlMax_upper [OF m, of "batch r"] r have "batch r \<le> m" by simp
  with m show ?thesis by (simp add: lastBatchOf_def)
qed

lemma Rollback_ok:
  assumes "faults s = []"
  shows "Rollback ms steps s =
    (if lastBatchOf (ledger s) = 0 then (None, Println ''Nothing to rollback'' s)
     else rollbackLoop (migrationMap ms) (lastBatchOf (ledger s))
            (if steps \<le> 0 then 1 else steps) 0 s)"
  using assms by (simp add: Rollback_def GetLastBatch_ok Let_def)

lemma rollbackPlan_batchNames:
  assumes "sorted_wrt (<) (map entry_id rows)"
  shows "concat (map (batchNames rows) (rev [lo .. lastBatchOf rows])) = rollbackPlan rows lo"
proof -
  have "batchNames rows = (\<lambda>b. rev (map migration (filter (\<lambda>r. batch r = b) rows)))"
    by (rule ext) (rule batchNames_insertion_order [OF assms])
  then show ?thesis by (simp add: rollbackPlan_def)
qed

lemma set_rollbackPlan:
  "set (rollbackPlan rows lo) = migration ` {r \<in> set rows. lo \<le> batch r}"
proof -
  have "set (rollbackPlan rows lo)
        = migration ` {r \<in> set rows. lo \<le> batch r \<and> batch r \<le> lastBatchOf rows}"
    by (auto simp: rollbackPlan_def)
  also have "\<dots> = migration ` {r \<in> set rows. lo \<le> batch r}"
    using batch_le_lastBatchOf by (intro arg_cong [where f = "(`) migration"]) auto
  finally show ?thesis .
qed

lemma ledger_after_plan:
  assumes "distinct (map migration rows)"
  shows "filter (\<lambda>r. migration r \<notin> set (rollbackPlan rows lo)) rows
         = filter (\<lambda>r. batch r < lo) rows"
proof (rule filter_cong [OF refl])
  fix r assume r: "r \<in> set rows"
  have inj: "inj_on migration (set rows)"
    using assms by (simp add: distinct_map)
  have "migration r \<in> set (rollbackPlan rows lo) \<longleftrightarrow> lo \<le> batch r"
  proof
    assume "migration r \<in> set (rollbackPlan rows lo)"
    then obtain r' where "r' \<in> set rows" "lo \<le> batch r'" "migration r' = migration r"
      by (auto simp: set_rollbackPlan)
    with inj r have "r' = r" by (auto dest: inj_onD)
    with \<open>lo \<le> batch r'\<close> show "lo \<le> batch r" by simp
  next
    assume "lo \<le> batch r"
    with r show "migration r \<in> set (rollbackPlan rows lo)"
      by (auto simp: set_rollbackPlan)
  qed
  then show "(migration r \<notin> set (rollbackPlan rows lo)) = (batch r < lo)" by auto
qed

lemma Rollback_plan:
  assumes "faults s = []" and "distinct (map migration (ledger s))"
    and "sorted_wrt (<) (map entry_id (ledger s))"
    and "lastBatchOf (ledger s) \<noteq> 0"
  shows "Rollback ms steps s =
     rollbackNames (migrationMap ms)
       (rollbackPlan (ledger s)
          (max 1 (lastBatchOf (ledger s) - (if steps \<le> 0 then 1 else steps) + 1))) s"
proof -
  have "Rollback ms steps s = rollbackLoop (migrationMap ms) (lastBatchOf (ledger s))
            (if steps \<le> 0 then 1 else steps) 0 s"
    using Rollback_ok [OF assms(1)] assms(4) by simp
  also have "\<dots> = rollbackNames (migrationMap ms)
       (concat (map (batchNames (ledger s))
          (rev [max 1 (lastBatchOf (ledger s) - (if steps \<le> 0 then 1 else steps) + 1)
                .. lastBatchOf (ledger s) - 0]))) s"
    using assms(1,2) by (rule rollbackLoop_plan)
  finally show ?thesis
    by (simp add: rollbackPlan_batchNames [OF assms(3)])
qed

lemma Rollback_success:
  fixes ms :: "'w Migration list" and s :: "'w system" and steps :: int
  defines "lo \<equiv> max 1 (lastBatchOf (ledger s) - (if steps \<le> 0 then 1 else steps) + 1)"
  defines "plan \<equiv> rollbackPlan (ledger s) lo"
  assumes "faults s = []"
    and "distinct (map migration (ledger s))"
    and "sorted_wrt (<) (map entry_id (ledger s))"
    and "1 \<le> lastBatchOf (ledger s)"
    and "set plan \<subseteq> set (map Name ms)"
    and "allSucceed (map (\<lambda>n. Down (the (migrationMap ms n))) plan) (world s)"
  shows "fst (Rollback ms steps s) = None
       \<and> world (snd (Rollback ms steps s))
           = runAll (map (\<lambda>n. Down (the (migrationMap ms n))) plan) (world s)
       \<and> ledger (snd (Rollback ms steps s)) = filter (\<lambda>r. batch r < lo) (ledger s)
       \<and> console (snd (Rollback ms steps s)) = console s @ rollbackLines plan"
proof -
  have nz: "lastBatchOf (ledger s) \<noteq> 0" using assms(6) by simp
  have run: "Rollback ms steps s = rollbackNames (migrationMap ms) (plan @ []) s"
    unfolding plan_def lo_def using Rollback_plan [OF assms(3,4,5) nz] by simp
  have sub: "set plan \<subseteq> dom (migrationMap ms)"
    using assms(7) by (simp add: dom_migrationMap)
  from rollbackNames_prefix [OF assms(3) sub assms(8), of "[]"]
  obtain s' where "rollbackNames (migrationMap ms) (plan @ []) s = (None, s')"
    and "world s' = runAll (map (\<lambda>n. Down (the (migrationMap ms n))) plan) (world s)"
    and "ledger s' = filter (\<lambda>r. migration r \<notin> set plan) (ledger s)"
    and "console s' = console s @ rollbackLines plan"
    by auto
  moreover have "filter (\<lambda>r. migration r \<notin> set plan) (ledger s)
                 = filter (\<lambda>r. batch r < lo) (ledger s)"
    unfolding plan_def using assms(4) by (rule ledger_after_plan)
  ultimately show ?thesis using run by simp
qed

lemma Rollback_missing:
  fixes ms :: "'w Migration list" and s :: "'w system" and steps :: int
  defines "lo \<equiv> max 1 (lastBatchOf (ledger s) - (if steps \<le> 0 then 1 else steps) + 1)"
  assumes "faults s = []"
    and "distinct (map migration (ledger s))"
    and "sorted_wrt (<) (map entry_id (ledger s))"
    and "rollbackPlan (ledger s) lo = pre @ x # post"
    and "set pre \<subseteq> set (map Name ms)"
    and "x \<notin> set (map Name ms)"
    and "allSucceed (map (\<lambda>n. Down (the (migrationMap ms n))) pre) (world s)"
  shows "fst (Rollback ms steps s) = Some (FileNotFound x)
       \<and> world (snd (Rollback ms steps s))
           = runAll (map (\<lambda>n. Down (the (migrationMap ms n))) pre) (world s)
       \<and> ledger (snd (Rollback ms steps s)) = filter (\<lambda>r. migration r \<notin> set pre) (ledger s)
       \<and> x \<in> set (map migration (ledger (snd (Rollback ms steps s))))
       \<and> console (snd (Rollback ms steps s)) = console s @ rollbackLines pre"
proof -
  have "[lo .. lastBatchOf (ledger s)] \<noteq> []"
    using assms(5) by (auto simp: rollbackPlan_def)
  then have "lo \<le> lastBatchOf (ledger s)" by simp
  then have nz: "lastBatchOf (ledger s) \<noteq> 0" by (simp add: lo_def)
  have run: "Rollback ms steps s = rollbackNames (migrationMap ms) (pre @ x # post) s"
    unfolding assms(5) [symmetric] lo_def using Rollback_plan [OF assms(2,3,4) nz] by simp
  have sub: "set pre \<subseteq> dom (migrationMap ms)"
    using assms(6) by (simp add: dom_migrationMap)
  have none: "migrationMap ms x = None"
    using assms(7) dom_migrationMap [of ms] by blast
  from rollbackNames_prefix [OF assms(2) sub assms(8), of "x # post"]
  obtain s' where a: "rollbackNames (migrationMap ms) (pre @ x # post) s
                      = rollbackNames (migrationMap ms) (x # post) s'"
    and c: "world s' = runAll (map (\<lambda>n. Down (the (migrationMap ms n))) pre) (world s)"
    and d: "ledger s' = filter (\<lambda>r. migration r \<notin> set pre) (ledger s)"
    and g: "console s' = console s @ rollbackLines pre"
    by blast
  have res: "Rollback ms steps s = (Some (FileNotFound x), s')"
    using run a none by simp
  have "x \<in> set (rollbackPlan (ledger s) lo)"
    using assms(5) by simp
  then have "x \<in> set (map migration (ledger s))"
    by (auto simp: set_rollbackPlan)
  moreover have "x \<notin> set pre"
    using assms(6,7) by auto
  ultimately have "x \<in> set (map migration (ledger s'))"
    unfolding d by auto
  with res c d g show ?thesis by simp
qed

lemma Reset_ok:
  assumes "faults s = []"
  shows "Reset ms s =
    (if lastBatchOf (ledger s) = 0 then (None, Println ''Nothing to reset'' s)
     else Rollback ms (lastBatchOf (ledger s)) s)"
  using assms by (simp add: Reset_def GetLastBatch_ok)

lemma rollbackPlan_Nil: "rollbackPlan [] lo = []"
  by (simp add: rollbackPlan_def)

lemma Reset_equiv:
  assumes "faults s = []"
  shows "fst (Reset ms s) = fst (Rollback ms (lastBatchOf (ledger s)) s)
       \<and> world (snd (Reset ms s)) = world (snd (Rollback ms (lastBatchOf (ledger s)) s))
       \<and> ledger (snd (Reset ms s)) = ledger (snd (Rollback ms (lastBatchOf (ledger s)) s))
       \<and> console (snd (Reset ms s)) =
           (if lastBatchOf (ledger s) = 0 then console s @ [''Nothing to reset'']
            else console (snd (Rollback ms (lastBatchOf (ledger s)) s)))"
  using Reset_ok [OF assms, of ms] Rollback_ok [OF assms, of ms "lastBatchOf (ledger s)"]
  by (simp add: Println_def)

lemma Reset_empties:
  assumes "faults s = []"
    and "distinct (map migration (ledger s))"
    and "sorted_wrt (<) (map entry_id (ledger s))"
    and "\<forall>r \<in> set (ledger s). 1 \<le> batch r"
    and "set (map migration (ledger s)) \<subseteq> set (map Name ms)"
    and "allSucceed (map (\<lambda>n. Down (the (migrationMap ms n))) (rollbackPlan (ledger s) 1))
           (world s)"
  shows "fst (Reset ms s) = None
       \<and> ledger (snd (Reset ms s)) = []
       \<and> world (snd (Reset ms s))
           = runAll (map (\<lambda>n. Down (the (migrationMap ms n))) (rollbackPlan (ledger s) 1))
               (world s)"
proof (cases "ledger s = []")
  case True
  then have "lastBatchOf (ledger s) = 0" by (simp add: lastBatchOf_def)
  with True show ?thesis
    using Reset_ok [OF assms(1), of ms] by (simp add: Println_def rollbackPlan_Nil)
next
  case False
  then obtain r where r: "r \<in> set (ledger s)" by (cases "ledger s") auto
  with assms(4) have "1 \<le> batch r" by blast
  with batch_le_lastBatchOf [OF r] have L: "1 \<le> lastBatchOf (ledger s)" by simp
  let ?L = "lastBatchOf (ledger s)"
  have lo: "max 1 (?L - (if ?L \<le> 0 then 1 else ?L) + 1) = 1"
    using L by simp
  have sub: "set (rollbackPlan (ledger s) 1) \<subseteq> set (map Name ms)"
    using assms(5) by (auto simp: set_rollbackPlan)
  note R = Rollback_success [of s ?L ms, unfolded lo, OF assms(1,2,3) L sub assms(6)]
  have "filter (\<lambda>r. batch r < 1) (ledger s) = []"
    using assms(4) by (auto simp: filter_empty_conv)
  with R show ?thesis
    using Reset_ok [OF assms(1), of ms] L by simp
qed

lemma Reset_None_empties:
  assumes "faults s = []"
    and "distinct (map migration (ledger s))"
    and "\<forall>r \<in> set (ledger s). 1 \<le> batch r"
    and "fst (Reset ms s) = None"
  shows "ledger (snd (Reset ms s)) = []"
proof (cases "ledger s = []")
  case True
  then have "lastBatchOf (ledger s) = 0" by (simp add: lastBatchOf_def)
  with True show ?thesis
    using Reset_ok [OF assms(1), of ms] by (simp add: Println_def)
next
  case False
  let ?L = "lastBatchOf (ledger s)"
  let ?plan = "concat (map (batchNames (ledger s)) (rev [1 .. ?L]))"
  from False obtain r where r: "r \<in> set (ledger s)" by (cases "ledger s") auto
  with assms(3) have "1 \<le> batch r" by blast
  with batch_le_lastBatchOf [OF r] have L: "1 \<le> ?L" by simp
  have "Reset ms s = rollbackLoop (migrationMap ms) ?L ?L 0 s"
    using Reset_ok [OF assms(1), of ms] Rollback_ok [OF assms(1), of ms ?L] L by simp
  also have "\<dots> = rollbackNames (migrationMap ms)
      (concat (map (batchNames (ledger s)) (rev [max 1 (?L - ?L + 1) .. ?L - 0]))) s"
    using assms(1,2) by (rule rollbackLoop_plan)
  finally have run: "Reset ms s = rollbackNames (migrationMap ms) ?plan s" by simp
  obtain s' where res: "rollbackNames (migrationMap ms) ?plan s = (None, s')"
    using assms(4) run by (cases "rollbackNames (migrationMap ms) ?plan s") auto
  from rollbackNames_None [OF assms(1) res]
  have l: "ledger s' = filter (\<lambda>r. migration r \<notin> set ?plan) (ledger s)" by simp
  have "\<forall>r \<in> set (ledger s). migration r \<in> set ?plan"
  proof
    fix r assume r: "r \<in> set (ledger s)"
    with assms(3) have "1 \<le> batch r" by blast
    moreover have "batch r \<le> ?L" using r by (rule batch_le_lastBatchOf)
    moreover have "migration r \<in> set (batchNames (ledger s) (batch r))"
      using r by (auto simp: set_batchNames)
    ultimately show "migration r \<in> set ?plan" by auto
  qed
  then have "filter (\<lambda>r. migration r \<notin> set ?plan) (ledger s) = []"
    by (auto simp: filter_empty_conv)
  with run res l show ?thesis by simp
qed

section \<open>What the ledger keeps\<close>

lemma Migrate_pending_only:
  assumes "filter (\<lambda>m. Name m \<notin> set (map migration (ledger s))) ms
         = filter (\<lambda>m. Name m \<notin> set (map migration (ledger s))) ms'"
  shows "Migrate ms s = Migrate ms' s"
proof (cases "dbCall s")
  case (Pair r s1)
  then have l: "ledger s1 = ledger s"
    by (auto simp: dbCall_def split: list.splits)
  show ?thesis
  proof (cases r)
    case (Some e)
    with Pair show ?thesis by (simp add: Migrate_def GetExecutedMigrations_def)
  next
    case None
    with Pair have "GetExecutedMigrations s = (Inr (\<lambda>n. n \<in> set (map migration (ledger s))), s1)"
      by (simp add: GetExecutedMigrations_def l)
    then show ?thesis
      using assms by (simp add: Migrate_def split: prod.splits sum.splits)
  qed
qed

lemma dbCall_ledger: "ledger (snd (dbCall s)) = ledger s"
  by (simp add: dbCall_def split: list.splits)

lemma RecordMigration_cases:
  "RecordMigration n b s = (r, s') \<Longrightarrow>
   (r \<noteq> None \<and> ledger s' = ledger s) \<or> (r = None \<and> ledger s' = insertRow n b (ledger s))"
  by (auto simp: RecordMigration_def dbCall_def split: list.splits option.splits)

lemma RemoveMigration_cases:
  "RemoveMigration n s = (r, s') \<Longrightarrow>
   ledger s' = ledger s \<or> ledger s' = filter (\<lambda>r. migration r \<noteq> n) (ledger s)"
  by (auto simp: RemoveMigration_def dbCall_def split: list.splits option.splits)

lemma migrateLoop_names_distinct:
  "distinct (map Name ms) \<Longrightarrow>
   set (map Name ms) \<inter> set (map migration (ledger s)) = {} \<Longrightarrow>
   distinct (map migration (ledger s)) \<Longrightarrow>
   distinct (map migration (ledger (snd (migrateLoop ms b s))))"
proof (induction ms arbitrary: s)
  case Nil
  then show ?case by simp
next
  case (Cons m ms)
  let ?s1 = "Println (''Migrating: '' @ Name m) s"
  obtain r w where up: "Up m (world ?s1) = (r, w)" by (cases "Up m (world ?s1)")
  show ?case
  proof (cases r)
    case (Some e)
    with up Cons.prems(3) show ?thesis by (simp add: Println_def)
  next
    case None
    obtain r2 s2 where rec: "RecordMigration (Name m) b (?s1\<lparr>world := w\<rparr>) = (r2, s2)"
      by (cases "RecordMigration (Name m) b (?s1\<lparr>world := w\<rparr>)")
    from RecordMigration_cases [OF rec]
    consider "r2 \<noteq> None" "ledger s2 = ledger s"
      | "r2 = None" "ledger s2 = insertRow (Name m) b (ledger s)"
      by (auto simp: Println_def)
    then show ?thesis
    proof cases
      case 1
      with up None rec Cons.prems(3) show ?thesis by (auto simp: Println_def)
    next
      case 2
      let ?s3 = "Println (''Migrated:  '' @ Name m) s2"
      have l3: "map migration (ledger ?s3) = map migration (ledger s) @ [Name m]"
        using 2 by (simp add: Println_def insertRow_def)
      have d: "distinct (map Name ms)" using Cons.prems(1) by simp
      have i: "set (map Name ms) \<inter> set (map migration (ledger ?s3)) = {}"
        unfolding l3 using Cons.prems(1,2) by auto
      have dl: "distinct (map migration (ledger ?s3))"
        unfolding l3 using Cons.prems(2,3) by auto
      from Cons.IH [OF d i dl] show ?thesis
        using up None rec 2 by simp
    qed
  qed
qed

lemma insertRow_ids:
  assumes "sorted_wrt (<) (map entry_id rows)"
  shows "sorted_wrt (<) (map entry_id (insertRow n b rows))"
proof (cases "sqlMax (map entry_id rows)")
  case None
  then have "rows = []" by (simp add: sqlMax_None)
  then show ?thesis by (simp add: insertRow_def)
next
  case (Some m)
  then have "\<forall>x \<in> set (map entry_id rows). x < m + 1"
    using sqlMax_upper [OF Some] by fastforce
  with assms Some show ?thesis
    by (simp add: insertRow_def sorted_wrt_append)
qed

lemma migrateLoop_ids:
  "sorted_wrt (<) (map entry_id (ledger s)) \<Longrightarrow>
   sorted_wrt (<) (map entry_id (ledger (snd (migrateLoop ms b s))))"
proof (induction ms arbitrary: s)
  case Nil
  then show ?case by simp
next
  case (Cons m ms)
  let ?s1 = "Println (''Migrating: '' @ Name m) s"
  obtain r w where up: "Up m (world ?s1) = (r, w)" by (cases "Up m (world ?s1)")
  show ?case
  proof (cases r)
    case (Some e)
    with up Cons.prems show ?thesis by (simp add: Println_def)
  next
    case None
    obtain r2 s2 where rec: "RecordMigration (Name m) b (?s1\<lparr>world := w\<rparr>) = (r2, s2)"
      by (cases "RecordMigration (Name m) b (?s1\<lparr>world := w\<rparr>)")
    from RecordMigration_cases [OF rec]
    consider "r2 \<noteq> None" "ledger s2 = ledger s"
      | "r2 = None" "ledger s2 = insertRow (Name m) b (ledger s)"
      by (auto simp: Println_def)
    then show ?thesis
    proof cases
      case 1
      with up None rec Cons.prems show ?thesis by (auto simp: Println_def)
    next
      case 2
      let ?s3 = "Println (''Migrated:  '' @ Name m) s2"
      have "sorted_wrt (<) (map entry_id (ledger ?s3))"
        using 2 insertRow_ids [OF Cons.prems] by (simp add: Println_def)
      from Cons.IH [OF this] show ?thesis
        using up None rec 2 by simp
    qed
  qed
qed

lemma Migrate_cases:
  "ledger (snd (Migrate ms s)) = ledger s
   \<or> (\<exists>s1 b. ledger s1 = ledger s \<and>
        Migrate ms s = migrateLoop
          (sort_key Name (filter (\<lambda>m. Name m \<notin> set (map migration (ledger s))) ms)) b s1)"
proof (cases "dbCall s")
  case (Pair r s1)
  then have l1: "ledger s1 = ledger s" using dbCall_ledger [of s] by simp
  show ?thesis
  proof (cases r)
    case (Some e)
    with Pair l1 show ?thesis by (simp add: Migrate_def GetExecutedMigrations_def)
  next
    case None
    obtain r2 s2 where c2: "dbCall s1 = (r2, s2)" by (cases "dbCall s1")
    then have l2: "ledger s2 = ledger s" using dbCall_ledger [of s1] l1 by simp
    show ?thesis
    proof (cases r2)
      case (Some e)
      with Pair None c2 l2 show ?thesis
        by (simp add: Migrate_def GetExecutedMigrations_def GetLastBatch_def)
    next
      case None2: None
      show ?thesis
      proof (cases "filter (\<lambda>m. Name m \<notin> set (map migration (ledger s))) ms = []")
        case True
        with Pair None c2 None2 l1 l2 show ?thesis
          by (simp add: Migrate_def GetExecutedMigrations_def GetLastBatch_def Println_def)
      next
        case False
        with Pair None c2 None2 l1 l2 have "Migrate ms s = migrateLoop
          (sort_key Name (filter (\<lambda>m. Name m \<notin> set (map migration (ledger s))) ms))
          (lastBatchOf (ledger s2) + 1) s2"
          by (simp add: Migrate_def GetExecutedMigrations_def GetLastBatch_def)
        with l2 show ?thesis by blast
      qed
    qed
  qed
qed

lemma Migrate_names_distinct:
  assumes "distinct (map Name ms)" and "distinct (map migration (ledger s))"
  shows "distinct (map migration (ledger (snd (Migrate ms s))))"
proof -
  let ?todo = "sort_key Name (filter (\<lambda>m. Name m \<notin> set (map migration (ledger s))) ms)"
  from Migrate_cases [of ms s] show ?thesis
  proof
    assume "ledger (snd (Migrate ms s)) = ledger s"
    with assms(2) show ?thesis by simp
  next
    assume "\<exists>s1 b. ledger s1 = ledger s \<and> Migrate ms s = migrateLoop ?todo b s1"
    then obtain s1 b where l: "ledger s1 = ledger s"
      and run: "Migrate ms s = migrateLoop ?todo b s1" by blast
    have "distinct (map Name (filter (\<lambda>m. Name m \<notin> set (map migration (ledger s))) ms))"
      using assms(1) by (rule distinct_map_filter)
    then have d: "distinct (map Name ?todo)" by (simp only: distinct_map_sort_key)
    have i: "set (map Name ?todo) \<inter> set (map migration (ledger s1)) = {}"
      unfolding l by auto
    have dl: "distinct (map migration (ledger s1))" using assms(2) l by simp
    from migrateLoop_names_distinct [OF d i dl] run show ?thesis by simp
  qed
qed

lemma Migrate_ids:
  assumes "sorted_wrt (<) (map entry_id (ledger s))"
  shows "sorted_wrt (<) (map entry_id (ledger (snd (Migrate ms s))))"
  using Migrate_cases [of ms s] assms migrateLoop_ids by (metis (no_types, lifting))

lemma rollbackNames_deletes:
  "\<exists>P. ledger (snd (rollbackNames mp ns s)) = filter P (ledger s)"
proof (induction ns arbitrary: s)
  case Nil
  show ?case by (intro exI [of _ "\<lambda>_. True"]) simp
next
  case (Cons n ns)
  show ?case
  proof (cases "mp n")
    case None
    then show ?thesis by (intro exI [of _ "\<lambda>_. True"]) simp
  next
    case (Some m)
    let ?s1 = "Println (''Rolling back: '' @ n) s"
    obtain r w where dn: "Down m (world ?s1) = (r, w)" by (cases "Down m (world ?s1)")
    show ?thesis
    proof (cases r)
      case (Some e)
      with \<open>mp n = Some m\<close> dn show ?thesis
        by (intro exI [of _ "\<lambda>_. True"]) (simp add: Println_def)
    next
      case None
      obtain r2 s2 where rm: "RemoveMigration n (?s1\<lparr>world := w\<rparr>) = (r2, s2)"
        by (cases "RemoveMigration n (?s1\<lparr>world := w\<rparr>)")
      from RemoveMigration_cases [OF rm] obtain Q where q: "ledger s2 = filter Q (ledger s)"
        by (auto simp: Println_def intro: that [of "\<lambda>_. True"])
      show ?thesis
      proof (cases r2)
        case (Some e)
        with \<open>mp n = Some m\<close> dn None rm q show ?thesis by auto
      next
        case None2: None
        let ?s3 = "Println (''Rolled back: '' @ n) s2"
        from Cons.IH [of ?s3] obtain P where
          "ledger (snd (rollbackNames mp ns ?s3)) = filter P (ledger ?s3)" by blast
        then have "ledger (snd (rollbackNames mp ns ?s3)) = filter (\<lambda>x. Q x \<and> P x) (ledger s)"
          using q by (simp add: Println_def)
        with \<open>mp n = Some m\<close> dn None rm None2 show ?thesis by auto
      qed
    qed
  qed
qed

lemma rollbackLoop_deletes:
  "\<exists>P. ledger (snd (rollbackLoop mp L steps i s)) = filter P (ledger s)"
proof (induction "nat (steps - i)" arbitrary: i s)
  case 0
  then have "\<not> i < steps" by simp
  then show ?case
    by (intro exI [of _ "\<lambda>_. True"]) (simp add: rollbackLoop.simps)
next
  case (Suc k)
  from Suc.hyps(2) have lt: "i < steps" and k: "k = nat (steps - (i + 1))" by linarith+
  show ?case
  proof (cases "L - i \<le> 0")
    case True
    with lt show ?thesis
      by (intro exI [of _ "\<lambda>_. True"]) (simp add: rollbackLoop.simps)
  next
    case False
    obtain r s1 where c: "dbCall s = (r, s1)" by (cases "dbCall s")
    then have l1: "ledger s1 = ledger s" using dbCall_ledger [of s] by simp
    show ?thesis
    proof (cases r)
      case (Some e)
      with lt False c l1 show ?thesis
        by (intro exI [of _ "\<lambda>_. True"])
          (subst rollbackLoop.simps, simp add: GetMigrationsFromBatch_def)
    next
      case None
      let ?names = "batchNames (ledger s1) (L - i)"
      have loop: "rollbackLoop mp L steps i s =
        (if ?names = [] then rollbackLoop mp L steps (i + 1) s1
         else (case rollbackNames mp ?names s1 of
                 (Some e, s') \<Rightarrow> (Some e, s')
               | (None, s') \<Rightarrow> rollbackLoop mp L steps (i + 1) s'))"
        using lt False c None
        by (subst rollbackLoop.simps) (simp add: GetMigrationsFromBatch_def Let_def)
      show ?thesis
      proof (cases "?names = []")
        case True
        with loop Suc.hyps(1) [OF k, of s1] l1 show ?thesis by simp
      next
        case False
        obtain r2 s2 where rn: "rollbackNames mp ?names s1 = (r2, s2)"
          by (cases "rollbackNames mp ?names s1")
        from rollbackNames_deletes [of mp ?names s1] rn l1
        obtain Q where q: "ledger s2 = filter Q (ledger s)" by auto
        show ?thesis
        proof (cases r2)
          case (Some e)
          with loop False rn q show ?thesis by auto
        next
          case None2: None
          from Suc.hyps(1) [OF k, of s2] obtain P where
            "ledger (snd (rollbackLoop mp L steps (i + 1) s2)) = filter P (ledger s2)" by blast
          then have "ledger (snd (rollbackLoop mp L steps (i + 1) s2))
                     = filter (\<lambda>x. Q x \<and> P x) (ledger s)"
            using q by simp
          with loop False rn None2 show ?thesis by auto
        qed
      qed
    qed
  qed
qed

lemma Rollback_deletes: "\<exists>P. ledger (snd (Rollback ms steps s)) = filter P (ledger s)"
proof -
  obtain r s1 where c: "dbCall s = (r, s1)" by (cases "dbCall s")
  then have l1: "ledger s1 = ledger s" using dbCall_ledger [of s] by simp
  show ?thesis
  proof (cases r)
    case (Some e)
    with c l1 show ?thesis
      by (intro exI [of _ "\<lambda>_. True"]) (simp add: Rollback_def GetLastBatch_def)
  next
    case None
    show ?thesis
    proof (cases "lastBatchOf (ledger s1) = 0")
      case True
      with c None l1 show ?thesis
        by (intro exI [of _ "\<lambda>_. True"]) (simp add: Rollback_def GetLastBatch_def Println_def)
    next
      case False
      with c None have "Rollback ms steps s = rollbackLoop (migrationMap ms)
          (lastBatchOf (ledger s1)) (if steps \<le> 0 then 1 else steps) 0 s1"
        by (simp add: Rollback_def GetLastBatch_def Let_def)
      with rollbackLoop_deletes [of "migrationMap ms" "lastBatchOf (ledger s1)"
          "if steps \<le> 0 then 1 else steps" 0 s1] l1
      show ?thesis by simp
    qed
  qed
qed

lemma Reset_deletes: "\<exists>P. ledger (snd (Reset ms s)) = filter P (ledger s)"
proof -
  obtain r s1 where c: "dbCall s = (r, s1)" by (cases "dbCall s")
  then have l1: "ledger s1 = ledger s" using dbCall_ledger [of s] by simp
  show ?thesis
  proof (cases r)
    case (Some e)
    with c l1 show ?thesis
      by (intro exI [of _ "\<lambda>_. True"]) (simp add: Reset_def GetLastBatch_def)
  next
    case None
    show ?thesis
    proof (cases "lastBatchOf (ledger s1) = 0")
      case True
      with c None l1 show ?thesis
        by (intro exI [of _ "\<lambda>_. True"]) (simp add: Reset_def GetLastBatch_def Println_def)
    next
      case False
      with c None have "Reset ms s = Rollback ms (lastBatchOf (ledger s1)) s1"
        by (simp add: Reset_def GetLastBatch_def)
      with Rollback_deletes [of ms "lastBatchOf (ledger s1)" s1] l1
      show ?thesis by simp
    qed
  qed
qed

lemma filter_ids:
  "sorted_wrt (<) (map entry_id rows) \<Longrightarrow> sorted_wrt (<) (map entry_id (filter P rows))"
  by (simp add: sorted_wrt_map sorted_wrt_filter)

lemma reachable_names_distinct: "reachable s \<Longrightarrow> distinct (map migration (ledger s))"
proof (induction rule: reachable.induct)
  case (start s)
  then show ?case by simp
next
  case (migrate s ms)
  then show ?case by (simp add: Migrate_names_distinct)
next
  case (rollback s ms steps)
  from Rollback_deletes [of ms steps s] obtain P where
    "ledger (snd (Rollback ms steps s)) = filter P (ledger s)" by blast
  with rollback.IH show ?case by (simp add: distinct_map_filter)
next
  case (reset s ms)
  from Reset_deletes [of ms s] obtain P where
    "ledger (snd (Reset ms s)) = filter P (ledger s)" by blast
  with reset.IH show ?case by (simp add: distinct_map_filter)
next
  case (environment s s')
  then show ?case by simp
qed

lemma reachable_ids_increasing: "reachable s \<Longrightarrow> sorted_wrt (<) (map entry_id (ledger s))"
proof (induction rule: reachable.induct)
  case (start s)
  then show ?case by simp
next
  case (migrate s ms)
  then show ?case by (simp add: Migrate_ids)
next
  case (rollback s ms steps)
  from Rollback_deletes [of ms steps s] obtain P where
    "ledger (snd (Rollback ms steps s)) = filter P (ledger s)" by blast
  with rollback.IH show ?case by (simp add: filter_ids)
next
  case (reset s ms)
  from Reset_deletes [of ms s] obtain P where
    "ledger (snd (Reset ms s)) = filter P (ledger s)" by blast
  with reset.IH show ?case by (simp add: filter_ids)
next
  case (environment s s')
  then show ?case by simp
qed

section \<open>Rollback, Reset and the ledger invariant\<close>

lemma twoBatches_facts:
  "faults twoBatches = []"
  "distinct (map migration (ledger twoBatches))"
  "sorted_wrt (<) (map entry_id (ledger twoBatches))"
  "lastBatchOf (ledger twoBatches) = 2"
  "world twoBatches = []"
  by (simp_all add: twoBatches_def ledgerWith_def lastBatchOf_def)

lemma upto_1_2: "[1 .. 2] = [1, 2::int]" "[2 .. 2] = [2::int]"
  by (simp_all add: upto.simps)

lemma twoBatches_plan:
  "concat (map (\<lambda>b. rev (map migration (filter (\<lambda>r. batch r = b) (ledger twoBatches))))
     (rev [max 1 (lastBatchOf (ledger twoBatches) - (if (1::int) \<le> 0 then 1 else 1) + 1)
           .. lastBatchOf (ledger twoBatches)])) = [''c'', ''b'', ''a'']"
  "concat (map (\<lambda>b. rev (map migration (filter (\<lambda>r. batch r = b) (ledger twoBatches))))
     (rev [max 1 (lastBatchOf (ledger twoBatches) - (if (2::int) \<le> 0 then 1 else 2) + 1)
           .. lastBatchOf (ledger twoBatches)])) = [''c'', ''b'', ''a'', ''z'']"
  "concat (map (\<lambda>b. rev (map migration (filter (\<lambda>r. batch r = b) (ledger twoBatches))))
     (rev [1 .. lastBatchOf (ledger twoBatches)])) = [''c'', ''b'', ''a'', ''z'']"
  by (simp_all add: twoBatches_facts(4) upto_1_2) (simp_all add: twoBatches_def ledgerWith_def)



text \<open>
  C7. With the ledger and the plan of C4: let the plan be \<open>pre\<close>, then the name \<open>x\<close>, then
  \<open>post\<close>, where every name of \<open>pre\<close> has a supplied unit whose backward action succeeds
  and \<open>x\<close> has none. Then \<open>Rollback\<close> returns the error \<open>migration file not found: x\<close>; the
  caller's state is what the backward actions of \<open>pre\<close> left, so no action of \<open>post\<close> has
  run, in this batch or a later one; the ledger has lost the rows of \<open>pre\<close> only, and the
  row of \<open>x\<close> is still in it.
\<close>

theorem rollback_missing_unit_aborts:
  fixes ms :: "'w Migration list" and s :: "'w system" and steps :: int
  defines "lo \<equiv> max 1 (lastBatchOf (ledger s) - (if steps \<le> 0 then 1 else steps) + 1)"
  assumes "faults s = []"
    and "distinct (map migration (ledger s))"
    and "sorted_wrt (<) (map entry_id (ledger s))"
    and "concat (map (\<lambda>b. rev (map migration (filter (\<lambda>r. batch r = b) (ledger s))))
                     (rev [lo .. lastBatchOf (ledger s)])) = pre @ x # post"
    and "set pre \<subseteq> set (map Name ms)"
    and "x \<notin> set (map Name ms)"
    and "allSucceed (map (\<lambda>n. Down (the (migrationMap ms n))) pre) (world s)"
  shows "fst (Rollback ms steps s) = Some (FileNotFound x)
       \<and> world (snd (Rollback ms steps s))
           = runAll (map (\<lambda>n. Down (the (migrationMap ms n))) pre) (world s)
       \<and> ledger (snd (Rollback ms steps s)) = filter (\<lambda>r. migration r \<notin> set pre) (ledger s)
       \<and> x \<in> set (map migration (ledger (snd (Rollback ms steps s))))
       \<and> console (snd (Rollback ms steps s)) = console s @ rollbackLines pre"
  using Rollback_missing [of s steps pre x post ms] assms(2-8)
  unfolding lo_def rollbackPlan_def by blast

theorem rollback_missing_unit_aborts_witness:
  "faults twoBatches = []
   \<and> distinct (map migration (ledger twoBatches))
   \<and> sorted_wrt (<) (map entry_id (ledger twoBatches))
   \<and> ''b'' \<notin> set (map Name [logUnit ''z'', logUnit ''a'', logUnit ''c''])
   \<and> fst (Rollback [logUnit ''z'', logUnit ''a'', logUnit ''c''] 2 twoBatches)
       = Some (FileNotFound ''b'')
   \<and> world (snd (Rollback [logUnit ''z'', logUnit ''a'', logUnit ''c''] 2 twoBatches))
       = [''down c'']
   \<and> map migration (ledger (snd (Rollback [logUnit ''z'', logUnit ''a'', logUnit ''c''] 2 twoBatches)))
       = [''z'', ''a'', ''b'']"
proof -
  let ?ms = "[logUnit ''z'', logUnit ''a'', logUnit ''c'']"
  let ?s = "twoBatches"
  have lo: "max 1 (lastBatchOf (ledger ?s) - (if (2::int) \<le> 0 then 1 else 2) + 1) = 1"
    by (simp add: twoBatches_facts)
  have h4: "[''c'', ''b'', ''a'', ''z''] = [''c''] @ ''b'' # [''a'', ''z'']"
    by simp
  have h5: "set [''c''] \<subseteq> set (map Name ?ms)"
    by (simp add: logUnit_def)
  have h6: "''b'' \<notin> set (map Name ?ms)"
    by (simp add: logUnit_def)
  have dn: "map (\<lambda>n. Down (the (migrationMap ?ms n))) [''c''] = [Down (logUnit ''c'')]"
    by (simp add: migrationMap_def logUnit_def)
  have h7: "allSucceed (map (\<lambda>n. Down (the (migrationMap ?ms n))) [''c'']) (world ?s)"
    unfolding dn by (simp add: logUnit_def)
  have w: "runAll [Down (logUnit ''c'')] (world ?s) = [''down c'']"
    by (simp add: logUnit_def twoBatches_facts)
  have l: "map migration (filter (\<lambda>r. migration r \<notin> set [''c'']) (ledger ?s)) = [''z'', ''a'', ''b'']"
    by (simp add: twoBatches_def ledgerWith_def)
  note T = rollback_missing_unit_aborts [of ?s 2 "[''c'']" "''b''" "[''a'', ''z'']" ?ms,
      unfolded twoBatches_plan(2),
      OF twoBatches_facts(1,2,3) h4 h5 h6 h7, unfolded dn w]
  from T have r1: "fst (Rollback ?ms 2 ?s) = Some (FileNotFound ''b'')"
    and r2: "world (snd (Rollback ?ms 2 ?s)) = [''down c'']"
    and r3: "ledger (snd (Rollback ?ms 2 ?s)) = filter (\<lambda>r. migration r \<notin> set [''c'']) (ledger ?s)"
    by blast+
  have r3': "map migration (ledger (snd (Rollback ?ms 2 ?s))) = [''z'', ''a'', ''b'']"
    unfolding r3 by (rule l)
  show ?thesis
    using twoBatches_facts(1,2,3) h6 r1 r2 r3' by blast
qed

text \<open>
  C9. When the transport does not fail, \<open>Reset\<close> and \<open>Rollback\<close> with \<open>steps = lastBatch\<close>
  return the same result and leave the same ledger and the same caller's state, so they run
  the same backward actions and delete the same rows; the console is the same too, except
  that on an empty ledger \<open>Reset\<close> prints \<open>Nothing to reset\<close> where \<open>Rollback\<close> prints
  \<open>Nothing to rollback\<close>. On a ledger with pairwise distinct names and batch numbers of
  at least 1, a \<open>Reset\<close> that returns no error leaves the ledger empty. And it does return
  no error, having run the backward actions of all batches from the last to the first,
  when moreover the ids increase in the order of insertion, every recorded name has a
  supplied unit, and every backward action that runs succeeds.
\<close>

theorem reset_is_rollback_of_every_batch:
  fixes ms :: "'w Migration list" and s :: "'w system"
  defines "plan \<equiv> concat (map (\<lambda>b. rev (map migration (filter (\<lambda>r. batch r = b) (ledger s))))
                               (rev [1 .. lastBatchOf (ledger s)]))"
  assumes "faults s = []"
  shows "fst (Reset ms s) = fst (Rollback ms (lastBatchOf (ledger s)) s)
       \<and> world (snd (Reset ms s)) = world (snd (Rollback ms (lastBatchOf (ledger s)) s))
       \<and> ledger (snd (Reset ms s)) = ledger (snd (Rollback ms (lastBatchOf (ledger s)) s))
       \<and> console (snd (Reset ms s)) =
           (if lastBatchOf (ledger s) = 0 then console s @ [''Nothing to reset'']
            else console (snd (Rollback ms (lastBatchOf (ledger s)) s)))
       \<and> (distinct (map migration (ledger s))
            \<and> (\<forall>r \<in> set (ledger s). 1 \<le> batch r)
            \<and> fst (Reset ms s) = None
          \<longrightarrow> ledger (snd (Reset ms s)) = [])
       \<and> (distinct (map migration (ledger s))
            \<and> sorted_wrt (<) (map entry_id (ledger s))
            \<and> (\<forall>r \<in> set (ledger s). 1 \<le> batch r)
            \<and> set (map migration (ledger s)) \<subseteq> set (map Name ms)
            \<and> allSucceed (map (\<lambda>n. Down (the (migrationMap ms n))) plan) (world s)
          \<longrightarrow> fst (Reset ms s) = None
              \<and> ledger (snd (Reset ms s)) = []
              \<and> world (snd (Reset ms s))
                  = runAll (map (\<lambda>n. Down (the (migrationMap ms n))) plan) (world s))"
  using Reset_equiv [OF assms(2), of ms] Reset_empties [OF assms(2), of ms]
    Reset_None_empties [OF assms(2), of ms]
  unfolding plan_def rollbackPlan_def by blast

theorem reset_is_rollback_of_every_batch_witness:
  "faults twoBatches = []
   \<and> fst (Reset [logUnit ''z'', logUnit ''a'', logUnit ''b'', logUnit ''c''] twoBatches)
       = fst (Rollback [logUnit ''z'', logUnit ''a'', logUnit ''b'', logUnit ''c''] 2 twoBatches)
   \<and> ledger (snd (Reset [logUnit ''z'', logUnit ''a'', logUnit ''b'', logUnit ''c''] twoBatches))
       = ledger (snd (Rollback [logUnit ''z'', logUnit ''a'', logUnit ''b'', logUnit ''c''] 2 twoBatches))
   \<and> fst (Reset [logUnit ''z'', logUnit ''a'', logUnit ''b'', logUnit ''c''] twoBatches) = None
   \<and> ledger (snd (Reset [logUnit ''z'', logUnit ''a'', logUnit ''b'', logUnit ''c''] twoBatches)) = []
   \<and> world (snd (Reset [logUnit ''z'', logUnit ''a'', logUnit ''b'', logUnit ''c''] twoBatches))
       = [''down c'', ''down b'', ''down a'', ''down z'']"
proof -
  let ?ms = "[logUnit ''z'', logUnit ''a'', logUnit ''b'', logUnit ''c'']"
  let ?s = "twoBatches"
  have b: "\<forall>r \<in> set (ledger ?s). 1 \<le> batch r"
    by (simp add: twoBatches_def ledgerWith_def)
  have sub: "set (map migration (ledger ?s)) \<subseteq> set (map Name ?ms)"
    by (simp add: twoBatches_def ledgerWith_def logUnit_def)
  have dn: "map (\<lambda>n. Down (the (migrationMap ?ms n))) [''c'', ''b'', ''a'', ''z'']
            = [Down (logUnit ''c''), Down (logUnit ''b''), Down (logUnit ''a''), Down (logUnit ''z'')]"
    by (simp add: migrationMap_def logUnit_def)
  have ok: "allSucceed (map (\<lambda>n. Down (the (migrationMap ?ms n))) [''c'', ''b'', ''a'', ''z''])
              (world ?s)"
    unfolding dn by (simp add: logUnit_def)
  have w: "runAll [Down (logUnit ''c''), Down (logUnit ''b''), Down (logUnit ''a''),
                   Down (logUnit ''z'')] (world ?s)
           = [''down c'', ''down b'', ''down a'', ''down z'']"
    by (simp add: logUnit_def twoBatches_facts)
  note T = reset_is_rollback_of_every_batch [of ?s ?ms,
      unfolded twoBatches_plan(3), unfolded twoBatches_facts(4), OF twoBatches_facts(1)]
  from T twoBatches_facts(2,3) b sub ok
  have "fst (Reset ?ms ?s) = fst (Rollback ?ms 2 ?s)
      \<and> ledger (snd (Reset ?ms ?s)) = ledger (snd (Rollback ?ms 2 ?s))
      \<and> fst (Reset ?ms ?s) = None
      \<and> ledger (snd (Reset ?ms ?s)) = []
      \<and> world (snd (Reset ?ms ?s))
          = runAll (map (\<lambda>n. Down (the (migrationMap ?ms n))) [''c'', ''b'', ''a'', ''z''])
              (world ?s)"
    by blast
  then show ?thesis
    unfolding dn w using twoBatches_facts(1) by blast
qed

text \<open>
  C6, as the code has it. \<open>Migrate\<close> depends on the supplied units only through those whose
  name is not in the ledger: two lists with the same pending units give the same result, the
  same ledger and the same caller's state, so a unit that is already recorded is not run,
  whatever forward action it is resupplied with. And in every state reached from an empty
  ledger by calls of \<open>Migrate\<close> with units of pairwise distinct names, and calls of
  \<open>Rollback\<close> and \<open>Reset\<close>, whether the transport fails or not, each name is in
  the ledger at most once.
\<close>

theorem recorded_units_not_rerun:
  fixes s t :: "'w system"
  shows "(filter (\<lambda>m. Name m \<notin> set (map migration (ledger s))) ms
          = filter (\<lambda>m. Name m \<notin> set (map migration (ledger s))) ms'
          \<longrightarrow> Migrate ms s = Migrate ms' s)
       \<and> (reachable t \<longrightarrow> distinct (map migration (ledger t)))"
  using Migrate_pending_only [of s ms ms'] reachable_names_distinct [of t] by blast

theorem recorded_units_not_rerun_witness:
  "Migrate [failingUnit ''a'', logUnit ''b'']
      (ledgerWith [\<lparr>entry_id = 1, migration = ''a'', batch = 1\<rparr>])
   = Migrate [logUnit ''a'', logUnit ''b'']
      (ledgerWith [\<lparr>entry_id = 1, migration = ''a'', batch = 1\<rparr>])
   \<and> reachable (snd (Migrate [logUnit ''b'', logUnit ''a''] (ledgerWith [])))
   \<and> distinct (map migration
        (ledger (snd (Migrate [logUnit ''b'', logUnit ''a''] (ledgerWith [])))))"
proof -
  let ?s = "ledgerWith [\<lparr>entry_id = 1, migration = ''a'', batch = 1\<rparr>]"
  have f: "filter (\<lambda>m. Name m \<notin> set (map migration (ledger ?s))) [failingUnit ''a'', logUnit ''b'']
         = filter (\<lambda>m. Name m \<notin> set (map migration (ledger ?s))) [logUnit ''a'', logUnit ''b'']"
    by (simp add: ledgerWith_def logUnit_def failingUnit_def)
  have "reachable (ledgerWith [])"
    by (rule reachable.start) (simp add: ledgerWith_def)
  moreover have "distinct (map Name [logUnit ''b'', logUnit ''a''])"
    by (simp add: logUnit_def)
  ultimately have r: "reachable (snd (Migrate [logUnit ''b'', logUnit ''a''] (ledgerWith [])))"
    by (rule reachable.migrate)
  from recorded_units_not_rerun
    [of ?s "[failingUnit ''a'', logUnit ''b'']" "[logUnit ''a'', logUnit ''b'']"
        "snd (Migrate [logUnit ''b'', logUnit ''a''] (ledgerWith []))"]
  show ?thesis using f r by blast
qed

text \<open>
  Without distinct names the invariant fails: \<open>Migrate\<close> reads the ledger once, before its
  loop, so two supplied units of one name are both pending, both run, and both recorded.
\<close>

theorem duplicate_names_recorded_twice:
  "ledger (ledgerWith []) = []
   \<and> map migration (ledger (snd (Migrate [logUnit ''a'', logUnit ''a''] (ledgerWith []))))
       = [''a'', ''a'']
   \<and> \<not> distinct (map migration
        (ledger (snd (Migrate [logUnit ''a'', logUnit ''a''] (ledgerWith [])))))"
  by (simp add: Migrate_def GetExecutedMigrations_def GetLastBatch_def dbCall_def
      ledgerWith_def logUnit_def lastBatchOf_def Println_def RecordMigration_def insertRow_def)

end
